theory Spec2Isabelle
  imports Main
begin

section \<open>Python values and strings\<close>

text \<open>
  The enrichment cache of \<^verbatim>\<open>core/eu_additives.py\<close> works on Python strings and on
  dictionaries decoded from JSON or CSV. Strings are modelled as \<^typ>\<open>string\<close> and are
  taken to be ASCII: the character classes below (\<^verbatim>\<open>str.isspace\<close>, \<^verbatim>\<open>\s\<close>, \<^verbatim>\<open>\d\<close>,
  \<^verbatim>\<open>\w\<close>, \<^verbatim>\<open>str.upper\<close>, \<^verbatim>\<open>str.lower\<close>) are the ones Python 3 uses on code points
  below 128; a character from 128 on is left alone by every one of them here.
\<close>

definition is_space :: "char \<Rightarrow> bool" where
  \<comment> \<open>\<^verbatim>\<open>str.isspace\<close> and the class \<^verbatim>\<open>\s\<close> of \<^verbatim>\<open>re\<close> on ASCII: TAB, LF, VT, FF, CR,
      FS, GS, RS, US and the blank.\<close>
  "is_space c = (c \<in> set [CHR 0x09, CHR 0x0A, CHR 0x0B, CHR 0x0C, CHR 0x0D,
                           CHR 0x1C, CHR 0x1D, CHR 0x1E, CHR 0x1F, CHR 0x20])"

definition ascii_lowercase :: string where
  "ascii_lowercase = ''abcdefghijklmnopqrstuvwxyz''"

definition ascii_uppercase :: string where
  "ascii_uppercase = ''ABCDEFGHIJKLMNOPQRSTUVWXYZ''"

definition ascii_digits :: string where
  "ascii_digits = ''0123456789''"

definition is_digit :: "char \<Rightarrow> bool" where
  "is_digit c = (c \<in> set ascii_digits)"

definition is_alpha :: "char \<Rightarrow> bool" where
  "is_alpha c = (c \<in> set ascii_lowercase \<or> c \<in> set ascii_uppercase)"

definition is_word :: "char \<Rightarrow> bool" where
  \<comment> \<open>the class \<^verbatim>\<open>\w\<close>, which decides where \<^verbatim>\<open>\b\<close> holds\<close>
  "is_word c = (is_alpha c \<or> is_digit c \<or> c = CHR ''_'')"

definition upper_char :: "char \<Rightarrow> char" where
  "upper_char c =
     (case map_of (zip ascii_lowercase ascii_uppercase) c of Some u \<Rightarrow> u | None \<Rightarrow> c)"

definition lower_char :: "char \<Rightarrow> char" where
  "lower_char c =
     (case map_of (zip ascii_uppercase ascii_lowercase) c of Some l \<Rightarrow> l | None \<Rightarrow> c)"

definition upper :: "string \<Rightarrow> string" where
  "upper s = map upper_char s"

definition lower :: "string \<Rightarrow> string" where
  "lower s = map lower_char s"

definition strip :: "string \<Rightarrow> string" where
  \<comment> \<open>\<^verbatim>\<open>str.strip()\<close>: leading and trailing whitespace removed\<close>
  "strip s = rev (dropWhile is_space (rev (dropWhile is_space s)))"

definition startswith :: "string \<Rightarrow> string \<Rightarrow> bool" where
  "startswith s p = (take (length p) s = p)"

fun contains :: "string \<Rightarrow> string \<Rightarrow> bool" where
  \<comment> \<open>\<^verbatim>\<open>sub in s\<close> on strings\<close>
  "contains [] sub = (sub = [])"
| "contains (c # cs) sub = (startswith (c # cs) sub \<or> contains cs sub)"

text \<open>
  The values a decoded row, a cached record or a classified item can hold. Numbers are the
  integers: floating point is not modelled. A dictionary is an association list in
  insertion order, read with \<^const>\<open>map_of\<close>; its keys are strings, as JSON gives them.
\<close>

datatype pyval =
    PNone
  | PBool bool
  | PInt int
  | PStr string
  | PList "pyval list"
  | PDict "(string \<times> pyval) list"

type_synonym pydict = "(string \<times> pyval) list"

fun truthy :: "pyval \<Rightarrow> bool" where
  "truthy PNone = False"
| "truthy (PBool b) = b"
| "truthy (PInt i) = (i \<noteq> 0)"
| "truthy (PStr s) = (s \<noteq> [])"
| "truthy (PList xs) = (xs \<noteq> [])"
| "truthy (PDict d) = (d \<noteq> [])"

definition py_or :: "pyval \<Rightarrow> pyval \<Rightarrow> pyval" where
  \<comment> \<open>\<^verbatim>\<open>a or b\<close>\<close>
  "py_or a b = (if truthy a then a else b)"

definition dict_get :: "pydict \<Rightarrow> string \<Rightarrow> pyval" where
  \<comment> \<open>\<^verbatim>\<open>d.get(k)\<close>\<close>
  "dict_get d k = (case map_of d k of None \<Rightarrow> PNone | Some v \<Rightarrow> v)"

definition dict_get_d :: "pydict \<Rightarrow> string \<Rightarrow> pyval \<Rightarrow> pyval" where
  \<comment> \<open>\<^verbatim>\<open>d.get(k, default)\<close>\<close>
  "dict_get_d d k dflt = (case map_of d k of None \<Rightarrow> dflt | Some v \<Rightarrow> v)"

fun dict_set :: "('k \<times> 'v) list \<Rightarrow> 'k \<Rightarrow> 'v \<Rightarrow> ('k \<times> 'v) list" where
  \<comment> \<open>\<^verbatim>\<open>d[k] = v\<close>: an existing key keeps its place, a new one goes last\<close>
  "dict_set [] k v = [(k, v)]"
| "dict_set ((k', v') # d) k v = (if k' = k then (k, v) # d else (k', v') # dict_set d k v)"

definition dict_keys :: "pydict \<Rightarrow> string set" where
  "dict_keys d = fst ` set d"

subsection \<open>Rendering a value as text\<close>

definition digit_char :: "nat \<Rightarrow> char" where
  "digit_char n = ''0123456789abcdef'' ! (n mod 16)"

function str_nat :: "nat \<Rightarrow> string" where
  "str_nat n = (if n < 10 then [digit_char n] else str_nat (n div 10) @ [digit_char (n mod 10)])"
  by pat_completeness auto
termination
  by (relation "measure id") auto

declare str_nat.simps [simp del]

definition str_int :: "int \<Rightarrow> string" where
  "str_int i = (if i < 0 then CHR ''-'' # str_nat (nat (- i)) else str_nat (nat i))"

definition repr_char :: "char \<Rightarrow> char \<Rightarrow> string" where
  \<comment> \<open>one character of \<^verbatim>\<open>repr\<close> of a string quoted with \<open>q\<close>\<close>
  "repr_char q c =
     (if c = CHR 0x5C then [CHR 0x5C, CHR 0x5C]
      else if c = q then [CHR 0x5C, q]
      else if c = CHR 0x09 then [CHR 0x5C, CHR ''t'']
      else if c = CHR 0x0A then [CHR 0x5C, CHR ''n'']
      else if c = CHR 0x0D then [CHR 0x5C, CHR ''r'']
      else if (of_char c :: nat) < 32 \<or> c = CHR 0x7F
        then [CHR 0x5C, CHR ''x'', digit_char (of_char c div 16), digit_char (of_char c mod 16)]
      else [c])"

definition repr_str :: "string \<Rightarrow> string" where
  "repr_str s =
     (let q = (if CHR 0x27 \<in> set s \<and> CHR 0x22 \<notin> set s then CHR 0x22 else CHR 0x27)
      in q # concat (map (repr_char q) s) @ [q])"

fun join :: "string \<Rightarrow> string list \<Rightarrow> string" where
  "join sep [] = []"
| "join sep [x] = x"
| "join sep (x # y # ys) = x @ sep @ join sep (y # ys)"

fun py_repr :: "pyval \<Rightarrow> string" where
  "py_repr PNone = ''None''"
| "py_repr (PBool b) = (if b then ''True'' else ''False'')"
| "py_repr (PInt i) = str_int i"
| "py_repr (PStr s) = repr_str s"
| "py_repr (PList xs) = ''['' @ join '', '' (map py_repr xs) @ '']''"
| "py_repr (PDict d) =
     ''{'' @ join '', '' (map (\<lambda>kv. repr_str (fst kv) @ '': '' @ py_repr (snd kv)) d) @ ''}''"

definition py_str :: "pyval \<Rightarrow> string" where
  \<comment> \<open>\<^verbatim>\<open>str(v)\<close>: a string is itself, anything else is its \<^verbatim>\<open>repr\<close>\<close>
  "py_str v = (case v of PStr s \<Rightarrow> s | _ \<Rightarrow> py_repr v)"

section \<open>E-code utilities\<close>

text \<open>
  \<^verbatim>\<open>
  def normalize_e_code_storage(s: str) -> str:
      if not s:
          return ""
      s = s.strip().upper()
      s = re.sub(r"[\s-]+", "", s)
      if not s.startswith("E"):
          s = "E" + s
      return s
  \<close>
\<close>

definition normalize_e_code_storage :: "string \<Rightarrow> string" where
  "normalize_e_code_storage s =
     (if s = [] then []
      else let s1 = upper (strip s);
               s2 = filter (\<lambda>c. \<not> (is_space c \<or> c = CHR ''-'')) s1
           in if startswith s2 ''E'' then s2 else ''E'' @ s2)"

text \<open>
  The search \<^verbatim>\<open>re.search(r"(?i)E\s*[- ]?\s*(\d{3}[A-Z]?)", s)\<close>. After the \<^verbatim>\<open>E\<close> the
  pattern can only go on to a digit, which is neither whitespace nor a hyphen, so a match
  consumes the whole run of whitespace, at most one hyphen, and the whitespace after it:
  \<open>skip_sep\<close>. The group is three digits and, greedily, one letter. \<^verbatim>\<open>re.search\<close> takes the
  leftmost position where the pattern matches.
\<close>

definition skip_sep :: "string \<Rightarrow> string" where
  "skip_sep s =
     (let s1 = dropWhile is_space s
      in case s1 of
           [] \<Rightarrow> s1
         | c # r \<Rightarrow> if c = CHR ''-'' then dropWhile is_space r else s1)"

definition digits3_letter :: "string \<Rightarrow> string option" where
  \<comment> \<open>\<^verbatim>\<open>\d{3}[A-Z]?\<close> under \<^verbatim>\<open>(?i)\<close> at the start of \<open>t\<close>: the text it matches\<close>
  "digits3_letter t =
     (if 3 \<le> length t \<and> list_all is_digit (take 3 t)
      then Some (take 3 t @ (case drop 3 t of
                                [] \<Rightarrow> []
                              | c # _ \<Rightarrow> if is_alpha c then [c] else []))
      else None)"

definition match_core :: "string \<Rightarrow> string option" where
  \<comment> \<open>the pattern matched at the start of \<open>s\<close>: group 1\<close>
  "match_core s =
     (case s of
        [] \<Rightarrow> None
      | e # r \<Rightarrow> if e = CHR ''E'' \<or> e = CHR ''e'' then digits3_letter (skip_sep r) else None)"

fun search_core :: "string \<Rightarrow> string option" where
  "search_core [] = None"
| "search_core (c # cs) =
     (case match_core (c # cs) of Some g \<Rightarrow> Some g | None \<Rightarrow> search_core cs)"

text \<open>
  \<^verbatim>\<open>
  def normalize_e_code_query_variants(s: str) -> List[str]:
      s = s.strip().upper()
      m = re.search(r"(?i)E\s*[- ]?\s*(\d{3}[A-Z]?)", s)
      if not m:
          # If user passed just numbers like "250", still try variants
          core = re.sub(r"\D", "", s)
          return [f"E {core}", f"E{core}", f"E-{core}"] if core else [s]
      core = m.group(1)
      return [f"E {core}", f"E{core}", f"E-{core}"]
  \<close>
\<close>

definition spellings :: "string \<Rightarrow> string list" where
  "spellings core = [''E '' @ core, ''E'' @ core, ''E-'' @ core]"

definition normalize_e_code_query_variants :: "string \<Rightarrow> string list" where
  "normalize_e_code_query_variants s0 =
     (let s = upper (strip s0)
      in case search_core s of
           None \<Rightarrow> (let core = filter is_digit s
                    in if core \<noteq> [] then spellings core else [s])
         | Some core \<Rightarrow> spellings core)"

text \<open>
  \<^verbatim>\<open>
  _ECODE_RE = re.compile(r"(?i)\bE\s*[- ]?\s*\d{3}[a-z]?\b")

  def extract_e_code_from_text(text: str) -> str:
      if not text:
          return ""
      m = _ECODE_RE.search(text)
      return normalize_e_code_storage(m.group(0)) if m else ""
  \<close>
  The pattern is the one above between two word boundaries. The first holds when the
  character before the \<^verbatim>\<open>E\<close> is not a word character; the second when the one after the
  match is not (giving the letter back does not help: a digit followed by a letter has no
  boundary between them). \<open>match_ecode prev s\<close> is the text matched at the start of \<open>s\<close>, the
  character before being \<open>prev\<close>.
\<close>

definition match_ecode :: "char option \<Rightarrow> string \<Rightarrow> string option" where
  "match_ecode prev s =
     (case s of
        [] \<Rightarrow> None
      | e # r \<Rightarrow>
          if (e = CHR ''E'' \<or> e = CHR ''e'') \<and> (case prev of None \<Rightarrow> True | Some p \<Rightarrow> \<not> is_word p)
          then (let t = skip_sep r
                in case digits3_letter t of
                     None \<Rightarrow> None
                   | Some g \<Rightarrow>
                       (case drop (length g) t of
                          [] \<Rightarrow> Some (e # take (length r - length t) r @ g)
                        | n # _ \<Rightarrow> if is_word n then None
                                   else Some (e # take (length r - length t) r @ g)))
          else None)"

fun search_ecode :: "char option \<Rightarrow> string \<Rightarrow> string option" where
  "search_ecode prev [] = None"
| "search_ecode prev (c # cs) =
     (case match_ecode prev (c # cs) of Some m \<Rightarrow> Some m | None \<Rightarrow> search_ecode (Some c) cs)"

definition extract_e_code_from_text :: "string \<Rightarrow> string" where
  "extract_e_code_from_text text =
     (if text = [] then []
      else case search_ecode None text of
             Some m \<Rightarrow> normalize_e_code_storage m
           | None \<Rightarrow> [])"


section \<open>The world outside the program\<close>

text \<open>
  What the module reads from outside is a parameter of the model, gathered in the record
  \<open>env\<close>: the two API keys of the process environment, the HTTP client, the debug file
  written for each response, the JSON and CSV decoders, the clock with the two conversions
  of \<^verbatim>\<open>datetime\<close>, and the text-generation collaborator with the JSON coercion of
  \<^verbatim>\<open>core/json_utils.py\<close>. The world may answer differently each time it is asked, so
  every request, clock reading and generation call takes the number of interactions made so
  far (\<open>ticks\<close> of the state) and advances it. Time-outs and the pause of
  \<^verbatim>\<open>time.sleep(0.2)\<close> are not modelled; \<^verbatim>\<open>init_db()\<close> leaves the table's content alone and
  is omitted; SQLite itself is taken to work. Both tiers are keyed by the Python value used
  as key, which is a string wherever this module writes one.
\<close>

datatype exn =
    RequestException
  | OSError
  | JSONDecodeError
  | CsvError
  | TypeError
  | AttributeError
  | ValueError
  | GenerationError

datatype http_outcome =
    Http_raises
  | Http_response nat string

datatype dt_parse =
    Dt_raises
  | Naive int
  | Aware int

text \<open>
  A \<^verbatim>\<open>datetime\<close> without offset is the number of microseconds since the epoch.
  \<open>fromisoformat env s\<close> is what \<^verbatim>\<open>datetime.fromisoformat(s)\<close> does: it raises, or returns a
  value without offset (\<open>Naive\<close>), or one that carries a UTC offset (\<open>Aware\<close>).
\<close>

record env =
  qry_api_key :: string
  hdr_api_key :: string
  requests_get :: "nat \<Rightarrow> (string \<times> string) list \<Rightarrow> (string \<times> string) list \<Rightarrow> http_outcome"
  write_raises :: "nat \<Rightarrow> bool"
  json_loads :: "string \<Rightarrow> exn + pyval"
  csv_rows :: "string \<Rightarrow> exn + pydict list"
  clock :: "nat \<Rightarrow> int"
  isoformat :: "int \<Rightarrow> string"
  fromisoformat :: "string \<Rightarrow> dt_parse"
  llm_ready :: bool
  llm_invoke :: "nat \<Rightarrow> pyval \<Rightarrow> pyval \<Rightarrow> exn + string"
  parse_json_strict :: "string \<Rightarrow> exn + pyval"

section \<open>The two cache tiers\<close>

text \<open>
  The durable tier is the table \<^verbatim>\<open>eu_additives\<close>, keyed by \<^verbatim>\<open>e_code\<close>; a column holds
  the value bound to it (\<open>PNone\<close> for NULL). The column \<^verbatim>\<open>payload_json\<close> holds
  \<^verbatim>\<open>json.dumps\<close> of the upstream row and is read back with \<^verbatim>\<open>json.loads\<close>; the model
  keeps the row itself there (\<open>None\<close> for a NULL or empty text), \<^verbatim>\<open>json.loads\<close> undoing
  \<^verbatim>\<open>json.dumps\<close> on the values of \<^typ>\<open>pyval\<close>. L1 is the module's dictionary
  \<^verbatim>\<open>L1_CACHE\<close>. The state also records the cache writes in the order they happen.
\<close>

record db_row =
  col_official_name_en :: pyval
  col_function_en :: pyval
  col_policy_item_id :: pyval
  col_payload_json :: "pyval option"
  col_name_sv :: pyval
  col_function_sv :: pyval
  col_updated_at :: pyval

datatype event =
    Db_upsert pyval
  | L1_put pyval

record state =
  l1_cache :: "pyval \<rightharpoonup> pydict"
  db :: "pyval \<rightharpoonup> db_row"
  ticks :: nat
  trace :: "event list"

definition tick :: "state \<Rightarrow> state" where
  "tick st = st\<lparr>ticks := Suc (ticks st)\<rparr>"

definition TTL_DAYS :: int where
  "TTL_DAYS = 180"

definition timedelta_days :: "int \<Rightarrow> int" where
  \<comment> \<open>\<^verbatim>\<open>timedelta(days=d)\<close> in microseconds\<close>
  "timedelta_days d = d * 86400 * 1000000"

text \<open>
  \<^verbatim>\<open>
  def _utcnow() -> str:
      return datetime.utcnow().isoformat(timespec="seconds")

  def _is_expired(ts: Optional[str], days: int = TTL_DAYS) -> bool:
      if not ts:
          return True
      try:
          return datetime.utcnow() - datetime.fromisoformat(ts) > timedelta(days=days)
      except Exception:
          return True
  \<close>
  The clock is read before the text is parsed. A value that is not a string makes
  \<^verbatim>\<open>fromisoformat\<close> raise; a value with an offset makes the subtraction raise.
\<close>

definition utcnow :: "env \<Rightarrow> state \<Rightarrow> pyval \<times> state" where
  "utcnow env st = (PStr (isoformat env (clock env (ticks st))), tick st)"

definition is_expired :: "env \<Rightarrow> state \<Rightarrow> pyval \<Rightarrow> int \<Rightarrow> bool \<times> state" where
  "is_expired env st ts days =
     (if \<not> truthy ts then (True, st)
      else let now = clock env (ticks st); st' = tick st
           in case ts of
                PStr s \<Rightarrow> (case fromisoformat env s of
                             Naive t \<Rightarrow> (now - t > timedelta_days days, st')
                           | Aware t \<Rightarrow> (True, st')
                           | Dt_raises \<Rightarrow> (True, st'))
              | _ \<Rightarrow> (True, st'))"

text \<open>
  \<^verbatim>\<open>
  def _row_to_dict(row) -> Optional[Dict[str, Any]]:
      if not row:
          return None
      (e_code, official_name_en, function_en, policy_item_id, payload_json,
       name_sv, function_sv, updated_at) = row
      return {
          "eu_e_code": e_code or "",
          "eu_official_name": (official_name_en or ""),   # legacy EN alias
          "eu_function": (function_en or ""),             # legacy EN alias
          "eu_official_name_en": (official_name_en or ""),
          "eu_function_en": (function_en or ""),
          "eu_official_name_sv": (name_sv or ""),
          "eu_function_sv": (function_sv or ""),
          "eu_policy_item_id": (policy_item_id or ""),
          "eu_raw": json.loads(payload_json) if payload_json else {},
          "updated_at": updated_at or "",
      }
  \<close>
\<close>

definition row_to_dict :: "(pyval \<times> db_row) option \<Rightarrow> pydict option" where
  "row_to_dict row =
     (case row of
        None \<Rightarrow> None
      | Some (e_code, r) \<Rightarrow>
          Some [(''eu_e_code'', py_or e_code (PStr [])),
                (''eu_official_name'', py_or (col_official_name_en r) (PStr [])),
                (''eu_function'', py_or (col_function_en r) (PStr [])),
                (''eu_official_name_en'', py_or (col_official_name_en r) (PStr [])),
                (''eu_function_en'', py_or (col_function_en r) (PStr [])),
                (''eu_official_name_sv'', py_or (col_name_sv r) (PStr [])),
                (''eu_function_sv'', py_or (col_function_sv r) (PStr [])),
                (''eu_policy_item_id'', py_or (col_policy_item_id r) (PStr [])),
                (''eu_raw'', (case col_payload_json r of None \<Rightarrow> PDict [] | Some v \<Rightarrow> v)),
                (''updated_at'', py_or (col_updated_at r) (PStr []))])"

definition db_get_by_e_code :: "state \<Rightarrow> string \<Rightarrow> pydict option" where
  \<comment> \<open>\<^verbatim>\<open>SELECT ... FROM eu_additives WHERE e_code=?\<close>, then \<^verbatim>\<open>_row_to_dict(c.fetchone())\<close>\<close>
  "db_get_by_e_code st e_code_storage =
     row_to_dict (map_option (\<lambda>r. (PStr e_code_storage, r)) (db st (PStr e_code_storage)))"

text \<open>
  \<^verbatim>\<open>db_upsert(eu)\<close> inserts the row or overwrites every other column of the row with the
  same \<^verbatim>\<open>e_code\<close>. The default of \<^verbatim>\<open>eu.get("updated_at", _utcnow())\<close> is computed
  whether it is used or not, so the clock is read once.
\<close>

definition db_row_of :: "pydict \<Rightarrow> pyval \<Rightarrow> db_row" where
  \<comment> \<open>the values bound to the columns other than the key; \<open>now\<close> is the default of
      \<^verbatim>\<open>updated_at\<close>\<close>
  "db_row_of eu now =
     \<lparr> col_official_name_en = dict_get_d eu ''eu_official_name_en'' (PStr []),
       col_function_en = dict_get_d eu ''eu_function_en'' (PStr []),
       col_policy_item_id = dict_get_d eu ''eu_policy_item_id'' (PStr []),
       col_payload_json = Some (dict_get_d eu ''eu_raw'' (PDict [])),
       col_name_sv = dict_get_d eu ''eu_official_name_sv'' (PStr []),
       col_function_sv = dict_get_d eu ''eu_function_sv'' (PStr []),
       col_updated_at = dict_get_d eu ''updated_at'' now \<rparr>"

definition db_upsert :: "env \<Rightarrow> state \<Rightarrow> pydict \<Rightarrow> state" where
  "db_upsert env st eu =
     (let (now, st1) = utcnow env st;
          key = dict_get_d eu ''eu_e_code'' (PStr [])
      in st1\<lparr>db := (db st1)(key \<mapsto> db_row_of eu now), trace := trace st1 @ [Db_upsert key]\<rparr>)"

definition l1_put :: "state \<Rightarrow> pyval \<Rightarrow> pydict \<Rightarrow> state" where
  \<comment> \<open>\<^verbatim>\<open>L1_CACHE[k] = d\<close>\<close>
  "l1_put st k d = st\<lparr>l1_cache := (l1_cache st)(k \<mapsto> d), trace := trace st @ [L1_put k]\<rparr>"


section \<open>Registry client\<close>

definition BASE_URL :: string where
  "BASE_URL = ''https://api.datalake.sante.service.ec.europa.eu/food-additives/food_additives_details''"

definition API_VERSION :: string where
  "API_VERSION = ''v1.0''"

definition DEFAULT_HEADERS :: "(string \<times> string) list" where
  "DEFAULT_HEADERS =
     [(''User-Agent'', ''FoodAdditivesClient/1.0 (+your-app)''),
      (''Accept'', ''*/*''),
      (''Content-Type'', ''application/json'')]"

definition merged_params :: "env \<Rightarrow> string \<Rightarrow> (string \<times> string) list \<Rightarrow> (string \<times> string) list" where
  \<comment> \<open>\<^verbatim>\<open>{"format": fmt, "api-version": API_VERSION, **params}\<close> and the optional query key\<close>
  "merged_params env fmt params =
     (let merged = foldl (\<lambda>m kv. dict_set m (fst kv) (snd kv))
                     [(''format'', fmt), (''api-version'', API_VERSION)] params
      in if qry_api_key env \<noteq> [] then dict_set merged ''subscription-key'' (qry_api_key env)
         else merged)"

definition request_headers :: "env \<Rightarrow> (string \<times> string) list" where
  "request_headers env =
     (if hdr_api_key env \<noteq> []
      then dict_set DEFAULT_HEADERS ''Ocp-Apim-Subscription-Key'' (hdr_api_key env)
      else DEFAULT_HEADERS)"

text \<open>
  \<^verbatim>\<open>_http_get\<close> and \<^verbatim>\<open>_http_get_csv\<close> differ in the format only: the request is sent, the
  body is written to the debug file, the response is returned. Either step can raise.
\<close>

definition http_get_fmt :: "env \<Rightarrow> state \<Rightarrow> string \<Rightarrow> (string \<times> string) list
    \<Rightarrow> (exn + nat \<times> string) \<times> state" where
  "http_get_fmt env st fmt params =
     (case requests_get env (ticks st) (merged_params env fmt params) (request_headers env) of
        Http_raises \<Rightarrow> (Inl RequestException, tick st)
      | Http_response status body \<Rightarrow>
          if write_raises env (ticks st) then (Inl OSError, tick st)
          else (Inr (status, body), tick st))"

definition http_get :: "env \<Rightarrow> state \<Rightarrow> (string \<times> string) list \<Rightarrow> (exn + nat \<times> string) \<times> state" where
  "http_get env st params = http_get_fmt env st ''json'' params"

definition http_get_csv :: "env \<Rightarrow> state \<Rightarrow> (string \<times> string) list \<Rightarrow> (exn + nat \<times> string) \<times> state" where
  "http_get_csv env st params = http_get_fmt env st ''csv'' params"

text \<open>
  \<^verbatim>\<open>
  def _extract_rows_from_json(data: Any) -> List[Dict[str, Any]]:
      if data is None:
          return []
      if isinstance(data, list):
          return [r for r in data if isinstance(r, dict)]
      if isinstance(data, dict):
          for key in ("value", "items", "data", "results"):
              if key in data and isinstance(data[key], list):
                  return [r for r in data[key] if isinstance(r, dict)]
          return [data]
      return []
  \<close>
\<close>

fun dicts_of :: "pyval list \<Rightarrow> pydict list" where
  "dicts_of [] = []"
| "dicts_of (PDict d # vs) = d # dicts_of vs"
| "dicts_of (_ # vs) = dicts_of vs"

fun nested_rows :: "pydict \<Rightarrow> string list \<Rightarrow> pydict list option" where
  "nested_rows d [] = None"
| "nested_rows d (key # keys) =
     (case map_of d key of
        Some (PList xs) \<Rightarrow> Some (dicts_of xs)
      | _ \<Rightarrow> nested_rows d keys)"

definition extract_rows_from_json :: "pyval \<Rightarrow> pydict list" where
  "extract_rows_from_json data =
     (case data of
        PNone \<Rightarrow> []
      | PList xs \<Rightarrow> dicts_of xs
      | PDict d \<Rightarrow> (case nested_rows d [''value'', ''items'', ''data'', ''results''] of
                      Some rows \<Rightarrow> rows
                    | None \<Rightarrow> [d])
      | _ \<Rightarrow> [])"

text \<open>
  \<^verbatim>\<open>
  def _api_get_rows_json(params, timeout=45):
      try:
          resp = _http_get(params, timeout=timeout)
          if resp.status_code != 200:
              return []
          data = resp.json()
          return _extract_rows_from_json(data)
      except Exception:
          return []
  \<close>
  \<open>api_get_rows_json_try\<close> is the body of the \<^verbatim>\<open>try\<close>, which can raise; the function itself
  turns every exception into the empty list. \<^verbatim>\<open>_api_get_rows_csv\<close> has the same shape with
  \<^verbatim>\<open>list(csv.DictReader(StringIO(resp.text)))\<close>.
\<close>

definition api_get_rows_json_try :: "env \<Rightarrow> state \<Rightarrow> (string \<times> string) list
    \<Rightarrow> (exn + pydict list) \<times> state" where
  "api_get_rows_json_try env st params =
     (case http_get env st params of
        (Inl e, st') \<Rightarrow> (Inl e, st')
      | (Inr (status, body), st') \<Rightarrow>
          if status \<noteq> 200 then (Inr [], st')
          else (case json_loads env body of
                  Inl e \<Rightarrow> (Inl e, st')
                | Inr data \<Rightarrow> (Inr (extract_rows_from_json data), st')))"

definition api_get_rows_json :: "env \<Rightarrow> state \<Rightarrow> (string \<times> string) list
    \<Rightarrow> (exn + pydict list) \<times> state" where
  "api_get_rows_json env st params =
     (case api_get_rows_json_try env st params of
        (Inl e, st') \<Rightarrow> (Inr [], st')
      | (Inr rows, st') \<Rightarrow> (Inr rows, st'))"

definition api_get_rows_csv_try :: "env \<Rightarrow> state \<Rightarrow> (string \<times> string) list
    \<Rightarrow> (exn + pydict list) \<times> state" where
  "api_get_rows_csv_try env st params =
     (case http_get_csv env st params of
        (Inl e, st') \<Rightarrow> (Inl e, st')
      | (Inr (status, body), st') \<Rightarrow>
          if status \<noteq> 200 then (Inr [], st')
          else (case csv_rows env body of
                  Inl e \<Rightarrow> (Inl e, st')
                | Inr rows \<Rightarrow> (Inr rows, st')))"

definition api_get_rows_csv :: "env \<Rightarrow> state \<Rightarrow> (string \<times> string) list
    \<Rightarrow> (exn + pydict list) \<times> state" where
  "api_get_rows_csv env st params =
     (case api_get_rows_csv_try env st params of
        (Inl e, st') \<Rightarrow> (Inr [], st')
      | (Inr rows, st') \<Rightarrow> (Inr rows, st'))"

section \<open>Row selector\<close>

text \<open>
  \<^verbatim>\<open>
  def _prefer_substance_match(rows, e_code_norm):
      def norm(val: str) -> str:
          return normalize_e_code_storage(val or "")
      ecode_keys = ["additive_e_code", "e_code", "E_number", "e_number", "code"]

      enriched = []
      for r in rows:
          e = ""
          for k in ecode_keys:
              v = r.get(k)
              if v not in (None, ""):
                  e = str(v)
                  break
          e_norm = norm(e)
          t = str(r.get("additive_type", "") or r.get("type", "") or "")
          enriched.append((r, e_norm, t))

      for r, e_norm, t in enriched:
          if e_norm and e_norm == e_code_norm and t.lower() == "substancefad":
              return r
      for r, e_norm, _ in enriched:
          if e_norm and e_norm == e_code_norm:
              return r
      for r, _, t in enriched:
          if t.lower() == "substancefad":
              return r
      return rows[0] if rows else None
  \<close>
\<close>

definition ecode_keys :: "string list" where
  "ecode_keys = [''additive_e_code'', ''e_code'', ''E_number'', ''e_number'', ''code'']"

fun first_code :: "pydict \<Rightarrow> string list \<Rightarrow> string" where
  "first_code r [] = []"
| "first_code r (k # ks) =
     (let v = dict_get r k
      in if v \<noteq> PNone \<and> v \<noteq> PStr [] then py_str v else first_code r ks)"

definition type_text :: "pydict \<Rightarrow> string" where
  "type_text r =
     py_str (py_or (py_or (dict_get_d r ''additive_type'' (PStr [])) (dict_get_d r ''type'' (PStr [])))
                   (PStr []))"

definition enriched_rows :: "pydict list \<Rightarrow> (pydict \<times> string \<times> string) list" where
  "enriched_rows rows =
     map (\<lambda>r. (r, normalize_e_code_storage (first_code r ecode_keys), type_text r)) rows"

definition prefer_substance_match :: "pydict list \<Rightarrow> string \<Rightarrow> pydict option" where
  "prefer_substance_match rows e_code_norm =
     (let enriched = enriched_rows rows
      in case find (\<lambda>(r, e_norm, t). e_norm \<noteq> [] \<and> e_norm = e_code_norm
                                      \<and> lower t = ''substancefad'') enriched of
           Some (r, _, _) \<Rightarrow> Some r
         | None \<Rightarrow>
             (case find (\<lambda>(r, e_norm, t). e_norm \<noteq> [] \<and> e_norm = e_code_norm) enriched of
                Some (r, _, _) \<Rightarrow> Some r
              | None \<Rightarrow>
                  (case find (\<lambda>(r, e_norm, t). lower t = ''substancefad'') enriched of
                     Some (r, _, _) \<Rightarrow> Some r
                   | None \<Rightarrow> (case rows of [] \<Rightarrow> None | r # _ \<Rightarrow> Some r))))"

section \<open>Live query\<close>

text \<open>
  \<^verbatim>\<open>
  def pick(d, *keys) -> str:
      for k in keys:
          if k in d and d[k] not in (None, ""):
              return str(d[k])
      return ""
  \<close>
\<close>

fun pick :: "pydict \<Rightarrow> string list \<Rightarrow> string" where
  "pick d [] = []"
| "pick d (k # ks) =
     (case map_of d k of
        Some v \<Rightarrow> if v \<noteq> PNone \<and> v \<noteq> PStr [] then py_str v else pick d ks
      | None \<Rightarrow> pick d ks)"

definition rows_json_then_csv :: "env \<Rightarrow> state \<Rightarrow> (string \<times> string) list
    \<Rightarrow> (exn + pydict list) \<times> state" where
  \<comment> \<open>\<^verbatim>\<open>rows = _api_get_rows_json(params); if not rows: rows = _api_get_rows_csv(params)\<close>\<close>
  "rows_json_then_csv env st params =
     (case api_get_rows_json env st params of
        (Inl e, st1) \<Rightarrow> (Inl e, st1)
      | (Inr rows, st1) \<Rightarrow>
          if rows = [] then api_get_rows_csv env st1 params else (Inr rows, st1))"

text \<open>
  The loop over the spellings of \<^verbatim>\<open>_query_api_and_normalize\<close>:
  \<^verbatim>\<open>
      for variant in variants:
          params = {"additive_e_code": variant}
          rows = _api_get_rows_json(params, timeout=timeout)
          if not rows:
              rows = _api_get_rows_csv(params, timeout=timeout)
          if rows:
              chosen_row = _prefer_substance_match(rows, normalize_e_code_storage(variant))
              if chosen_row:
                  break
  \<close>
  A chosen row that is an empty dictionary does not stop the loop and counts as no row at
  \<^verbatim>\<open>if not chosen_row: return None\<close>, so the loop yields the first non-empty chosen row.
\<close>

fun choose_by_variants :: "env \<Rightarrow> state \<Rightarrow> string list \<Rightarrow> (exn + pydict option) \<times> state" where
  "choose_by_variants env st [] = (Inr None, st)"
| "choose_by_variants env st (variant # variants) =
     (case rows_json_then_csv env st [(''additive_e_code'', variant)] of
        (Inl e, st1) \<Rightarrow> (Inl e, st1)
      | (Inr rows, st1) \<Rightarrow>
          if rows \<noteq> [] then
            (case prefer_substance_match rows (normalize_e_code_storage variant) of
               Some r \<Rightarrow> if r \<noteq> [] then (Inr (Some r), st1)
                         else choose_by_variants env st1 variants
             | None \<Rightarrow> choose_by_variants env st1 variants)
          else choose_by_variants env st1 variants)"

definition choose_by_name :: "env \<Rightarrow> state \<Rightarrow> string \<Rightarrow> (exn + pydict option) \<times> state" where
  "choose_by_name env st name =
     (case rows_json_then_csv env st [(''additive_name'', name)] of
        (Inl e, st1) \<Rightarrow> (Inl e, st1)
      | (Inr rows, st1) \<Rightarrow>
          (case rows of
             [] \<Rightarrow> (Inr None, st1)
           | r0 # _ \<Rightarrow>
               (case filter (\<lambda>r. lower (py_str (dict_get_d r ''additive_type'' (PStr [])))
                                   = ''substancefad'') rows of
                  [] \<Rightarrow> (Inr (if r0 \<noteq> [] then Some r0 else None), st1)
                | s0 # _ \<Rightarrow> (Inr (if s0 \<noteq> [] then Some s0 else None), st1))))"

definition normalize_row :: "env \<Rightarrow> state \<Rightarrow> pydict \<Rightarrow> pydict \<times> state" where
  \<comment> \<open>the record built from the chosen row, lines 320 to 334\<close>
  "normalize_row env st chosen_row =
     (let eu_e_raw = pick chosen_row [''additive_e_code'', ''e_code'', ''E_number'', ''e_number'', ''code''];
          eu_name_en = pick chosen_row [''additive_name'', ''name'', ''Name''];
          eu_func_en = pick chosen_row [''functional_class'', ''function'', ''category''];
          pol_id = pick chosen_row [''policy_item_id'', ''policy_id'', ''id''];
          fip_url = pick chosen_row [''fip_url'', ''url''];
          (now, st1) = utcnow env st
      in ([(''eu_e_code'', PStr (normalize_e_code_storage eu_e_raw)),
           (''eu_official_name_en'', PStr eu_name_en),
           (''eu_function_en'', PStr eu_func_en),
           (''eu_policy_item_id'', PStr pol_id),
           (''eu_raw'', PDict chosen_row),
           (''eu_fip_url'', PStr fip_url),
           (''updated_at'', now)], st1))"

definition given :: "string option \<Rightarrow> string option" where
  \<comment> \<open>an optional string argument when it is truthy: neither \<^verbatim>\<open>None\<close> nor empty\<close>
  "given a = (case a of None \<Rightarrow> None | Some s \<Rightarrow> if s = [] then None else Some s)"

definition query_api_and_normalize :: "env \<Rightarrow> state \<Rightarrow> string option \<Rightarrow> string option
    \<Rightarrow> (exn + pydict option) \<times> state" where
  "query_api_and_normalize env st e_code name =
     (let (chosen, st1) =
            (case given e_code of
               Some c \<Rightarrow> choose_by_variants env st (normalize_e_code_query_variants c)
             | None \<Rightarrow>
                 (case given name of
                    Some n \<Rightarrow> choose_by_name env st n
                  | None \<Rightarrow> (Inr None, st)))
      in case chosen of
           Inl e \<Rightarrow> (Inl e, st1)
         | Inr None \<Rightarrow> (Inr None, st1)
         | Inr (Some chosen_row) \<Rightarrow>
             (let (eu, st2) = normalize_row env st1 chosen_row in (Inr (Some eu), st2)))"


section \<open>Swedish enrichment\<close>

text \<open>
  The idiom \<^verbatim>\<open>(x or "").strip()\<close>: a truthy value that is not a string has no
  \<^verbatim>\<open>strip\<close>.
\<close>

definition or_empty_strip :: "pyval \<Rightarrow> exn + string" where
  "or_empty_strip v =
     (if \<not> truthy v then Inr []
      else case v of PStr s \<Rightarrow> Inr (strip s) | _ \<Rightarrow> Inl AttributeError)"

text \<open>
  \<^verbatim>\<open>
  def _is_placeholder_sv(s: str) -> bool:
      s = (s or "").strip().lower()
      return (
          s in {"", "namn", "funktion"} or
          "<" in s or ">" in s or
          "svensk" in s or "svenska" in s
      )
  \<close>
\<close>

definition is_placeholder_sv :: "pyval \<Rightarrow> exn + bool" where
  "is_placeholder_sv v =
     (case or_empty_strip v of
        Inl e \<Rightarrow> Inl e
      | Inr s0 \<Rightarrow>
          (let s = lower s0
           in Inr (s \<in> set [[], ''namn'', ''funktion''] \<or> contains s ''<'' \<or> contains s ''>''
                   \<or> contains s ''svensk'' \<or> contains s ''svenska'')))"

definition no_translation :: pydict where
  "no_translation = [(''name_sv'', PStr []), (''function_sv'', PStr [])]"

text \<open>
  \<^verbatim>\<open>
  def _translate_to_sv(name_en: str, function_en: str) -> Dict[str, str]:
      llm = _get_llm()
      if not llm or (not name_en and not function_en):
          return {"name_sv": "", "function_sv": ""}
      chain = _TRANSLATE_TMPL | llm | StrOutputParser()
      raw = chain.invoke({"name_en": name_en or "", "function_en": function_en or ""})
      try:
          data = parse_json_strict(raw)
      except Exception:
          return {"name_sv": "", "function_sv": ""}
      name_sv = (data.get("name_sv") or "").strip()
      function_sv = (data.get("function_sv") or "").strip()
      if _is_placeholder_sv(name_sv):
          name_sv = ""
      if _is_placeholder_sv(function_sv):
          function_sv = ""
      return {"name_sv": name_sv, "function_sv": function_sv}
  \<close>
  The generation call is outside the \<^verbatim>\<open>try\<close>; a decoded value that is not a dictionary
  has no \<^verbatim>\<open>get\<close>.
\<close>

definition translate_to_sv :: "env \<Rightarrow> state \<Rightarrow> pyval \<Rightarrow> pyval \<Rightarrow> (exn + pydict) \<times> state" where
  "translate_to_sv env st name_en function_en =
     (if \<not> llm_ready env \<or> (\<not> truthy name_en \<and> \<not> truthy function_en)
      then (Inr no_translation, st)
      else case llm_invoke env (ticks st) (py_or name_en (PStr [])) (py_or function_en (PStr [])) of
             Inl e \<Rightarrow> (Inl e, tick st)
           | Inr raw \<Rightarrow>
               (case parse_json_strict env raw of
                  Inl e \<Rightarrow> (Inr no_translation, tick st)
                | Inr (PDict data) \<Rightarrow>
                    (case or_empty_strip (dict_get data ''name_sv'') of
                       Inl e \<Rightarrow> (Inl e, tick st)
                     | Inr name_sv \<Rightarrow>
                         (case or_empty_strip (dict_get data ''function_sv'') of
                            Inl e \<Rightarrow> (Inl e, tick st)
                          | Inr function_sv \<Rightarrow>
                              (case is_placeholder_sv (PStr name_sv) of
                                 Inl e \<Rightarrow> (Inl e, tick st)
                               | Inr p1 \<Rightarrow>
                                   (case is_placeholder_sv (PStr function_sv) of
                                      Inl e \<Rightarrow> (Inl e, tick st)
                                    | Inr p2 \<Rightarrow>
                                        (Inr [(''name_sv'', PStr (if p1 then [] else name_sv)),
                                              (''function_sv'', PStr (if p2 then [] else function_sv))],
                                         tick st)))))
                | Inr _ \<Rightarrow> (Inl AttributeError, tick st)))"

definition SWEDISH_NAME_OVERRIDES :: "(string \<times> string) list" where
  "SWEDISH_NAME_OVERRIDES =
     [(''E903'', ''Karnaubavax''),
      (''E414'', ''Gummi arabicum (akaciagummi)''),
      (''E300'', ''Askorbinsyra''),
      (''E967'', ''Xylitol (bj'' @ [CHR 0xF6] @ ''rksocker)'')]"

definition FUNCTION_SV_MAP :: "(string \<times> string) list" where
  "FUNCTION_SV_MAP =
     [(''Antioxidant'', ''Antioxidationsmedel''),
      (''Glazing agent'', ''Ytbehandlingsmedel''),
      (''Glazing agents'', ''Ytbehandlingsmedel''),
      (''Colour'', ''F'' @ [CHR 0xE4] @ ''rg'' @ [CHR 0xE4] @ ''mne''),
      (''Color'', ''F'' @ [CHR 0xE4] @ ''rg'' @ [CHR 0xE4] @ ''mne''),
      (''Sweetener'', ''S'' @ [CHR 0xF6] @ ''tningsmedel''),
      (''Stabiliser'', ''Stabiliseringsmedel''),
      (''Stabilizer'', ''Stabiliseringsmedel''),
      (''Thickener'', ''F'' @ [CHR 0xF6] @ ''rtjockningsmedel''),
      (''Emulsifier'', ''Emulgeringsmedel''),
      (''Preservative'', ''Konserveringsmedel''),
      (''Raising agent'', ''J'' @ [CHR 0xE4] @ ''smedel''),
      (''Acidity regulator'', ''Surhetsreglerande medel''),
      (''Anti-caking agent'', ''Klumpf'' @ [CHR 0xF6] @ ''rebyggande medel''),
      (''Flavour enhancer'', ''Smakf'' @ [CHR 0xF6] @ ''rst'' @ [CHR 0xE4] @ ''rkare''),
      (''Flavouring'', ''Arom'' @ [CHR 0xE4] @ ''mne'')]"

definition FUNCTION_OVERRIDES_BY_ECODE_SV :: "(string \<times> string) list" where
  "FUNCTION_OVERRIDES_BY_ECODE_SV =
     [(''E903'', ''Ytbehandlingsmedel''),
      (''E967'', ''S'' @ [CHR 0xF6] @ ''tningsmedel''),
      (''E300'', ''Antioxidationsmedel''),
      (''E414'', ''Stabiliserings-/F'' @ [CHR 0xF6] @ ''rtjockningsmedel'')]"

definition table_lookup :: "(string \<times> string) list \<Rightarrow> pyval \<Rightarrow> exn + string option" where
  \<comment> \<open>\<^verbatim>\<open>k in TABLE\<close> with \<^verbatim>\<open>TABLE[k]\<close>: a list or a dictionary cannot be hashed\<close>
  "table_lookup tbl k =
     (case k of
        PStr s \<Rightarrow> Inr (map_of tbl s)
      | PList _ \<Rightarrow> Inl TypeError
      | PDict _ \<Rightarrow> Inl TypeError
      | _ \<Rightarrow> Inr None)"

definition lower_of :: "pyval \<Rightarrow> exn + string" where
  \<comment> \<open>\<^verbatim>\<open>v.lower()\<close>\<close>
  "lower_of v = (case v of PStr s \<Rightarrow> Inr (lower s) | _ \<Rightarrow> Inl AttributeError)"

text \<open>
  \<^verbatim>\<open>
  def _sv_fallbacks(eu: Dict[str, Any]) -> None:
      ecode   = eu.get("eu_e_code", "")
      func_en = eu.get("eu_function_en", "") or ""
      if _is_placeholder_sv(eu.get("eu_official_name_sv", "")):
          eu["eu_official_name_sv"] = ""
      if not eu.get("eu_official_name_sv") and ecode in SWEDISH_NAME_OVERRIDES:
          eu["eu_official_name_sv"] = SWEDISH_NAME_OVERRIDES[ecode]
      if _is_placeholder_sv(eu.get("eu_function_sv", "")):
          eu["eu_function_sv"] = ""
      if not eu.get("eu_function_sv") and func_en:
          for k, v in FUNCTION_SV_MAP.items():
              if k.lower() in func_en.lower():
                  eu["eu_function_sv"] = v
                  break
      if not eu.get("eu_function_sv") and ecode in FUNCTION_OVERRIDES_BY_ECODE_SV:
          eu["eu_function_sv"] = FUNCTION_OVERRIDES_BY_ECODE_SV[ecode]
  \<close>
  Each of the five statements is a step from dictionary to dictionary that can raise.
\<close>

definition clean_placeholder :: "pydict \<Rightarrow> string \<Rightarrow> exn + pydict" where
  "clean_placeholder eu field =
     (case is_placeholder_sv (dict_get_d eu field (PStr [])) of
        Inl e \<Rightarrow> Inl e
      | Inr p \<Rightarrow> Inr (if p then dict_set eu field (PStr []) else eu))"

definition override_by_code :: "pydict \<Rightarrow> string \<Rightarrow> (string \<times> string) list \<Rightarrow> exn + pydict" where
  "override_by_code eu field tbl =
     (if \<not> truthy (dict_get eu field)
      then (case table_lookup tbl (dict_get_d eu ''eu_e_code'' (PStr [])) of
              Inl e \<Rightarrow> Inl e
            | Inr (Some v) \<Rightarrow> Inr (dict_set eu field (PStr v))
            | Inr None \<Rightarrow> Inr eu)
      else Inr eu)"

definition function_by_map :: "pydict \<Rightarrow> exn + pydict" where
  "function_by_map eu =
     (let func_en = py_or (dict_get_d eu ''eu_function_en'' (PStr [])) (PStr [])
      in if \<not> truthy (dict_get eu ''eu_function_sv'') \<and> truthy func_en
         then (case lower_of func_en of
                 Inl e \<Rightarrow> Inl e
               | Inr f \<Rightarrow>
                   (case find (\<lambda>(k, v). contains f (lower k)) FUNCTION_SV_MAP of
                      Some (k, v) \<Rightarrow> Inr (dict_set eu ''eu_function_sv'' (PStr v))
                    | None \<Rightarrow> Inr eu))
         else Inr eu)"

definition sv_fallbacks :: "pydict \<Rightarrow> exn + pydict" where
  "sv_fallbacks eu =
     (case clean_placeholder eu ''eu_official_name_sv'' of
        Inl e \<Rightarrow> Inl e
      | Inr eu1 \<Rightarrow>
     (case override_by_code eu1 ''eu_official_name_sv'' SWEDISH_NAME_OVERRIDES of
        Inl e \<Rightarrow> Inl e
      | Inr eu2 \<Rightarrow>
     (case clean_placeholder eu2 ''eu_function_sv'' of
        Inl e \<Rightarrow> Inl e
      | Inr eu3 \<Rightarrow>
     (case function_by_map eu3 of
        Inl e \<Rightarrow> Inl e
      | Inr eu4 \<Rightarrow> override_by_code eu4 ''eu_function_sv'' FUNCTION_OVERRIDES_BY_ECODE_SV))))"


section \<open>Public API\<close>

text \<open>
  In \<^verbatim>\<open>query_eu_additive\<close> the same statements follow a successful live query on the E-code
  path (lines 493 to 506) and on the name path (lines 517 to 528):
  \<^verbatim>\<open>
      if translate_sv:
          sv = _translate_to_sv(eu.get("eu_official_name_en", ""), eu.get("eu_function_en", ""))
          eu["eu_official_name_sv"] = sv.get("name_sv", "")
          eu["eu_function_sv"] = sv.get("function_sv", "")
      else:
          eu["eu_official_name_sv"] = ""
          eu["eu_function_sv"] = ""
      _sv_fallbacks(eu)
      eu["eu_official_name"] = eu.get("eu_official_name_en", "")
      eu["eu_function"]      = eu.get("eu_function_en", "")
  \<close>
\<close>

definition complete_record :: "env \<Rightarrow> state \<Rightarrow> pydict \<Rightarrow> bool \<Rightarrow> (exn + pydict) \<times> state" where
  "complete_record env st eu translate_sv =
     (case (if translate_sv
            then translate_to_sv env st (dict_get_d eu ''eu_official_name_en'' (PStr []))
                                        (dict_get_d eu ''eu_function_en'' (PStr []))
            else (Inr no_translation, st)) of
        (Inl e, st1) \<Rightarrow> (Inl e, st1)
      | (Inr sv, st1) \<Rightarrow>
          (let eu1 = dict_set eu ''eu_official_name_sv'' (dict_get_d sv ''name_sv'' (PStr []));
               eu2 = dict_set eu1 ''eu_function_sv'' (dict_get_d sv ''function_sv'' (PStr []))
           in case sv_fallbacks eu2 of
                Inl e \<Rightarrow> (Inl e, st1)
              | Inr eu3 \<Rightarrow>
                  (let eu4 = dict_set eu3 ''eu_official_name''
                               (dict_get_d eu3 ''eu_official_name_en'' (PStr []));
                       eu5 = dict_set eu4 ''eu_function'' (dict_get_d eu4 ''eu_function_en'' (PStr []))
                   in (Inr eu5, st1))))"

definition fresh :: "env \<Rightarrow> state \<Rightarrow> pydict option \<Rightarrow> bool \<times> state" where
  \<comment> \<open>\<^verbatim>\<open>d and not _is_expired(d.get("updated_at"))\<close>\<close>
  "fresh env st hit =
     (case hit of
        None \<Rightarrow> (False, st)
      | Some d \<Rightarrow>
          if d = [] then (False, st)
          else (let (expired, st1) = is_expired env st (dict_get d ''updated_at'') TTL_DAYS
                in (\<not> expired, st1)))"

text \<open>
  \<^verbatim>\<open>
  def query_eu_additive(e_code=None, name=None, timeout=45, translate_sv=True):
      init_db()
      if e_code:
          e_store = normalize_e_code_storage(e_code)
          hit = L1_CACHE.get(e_store)
          if hit and not _is_expired(hit.get("updated_at")):
              return hit
          row = db_get_by_e_code(e_store)
          if row and not _is_expired(row.get("updated_at")):
              L1_CACHE[e_store] = row
              return row
          eu = _query_api_and_normalize(e_code=e_store, name=None, timeout=timeout)
          if eu:
              ...
              db_upsert(eu)
              L1_CACHE[e_store] = eu
              time.sleep(0.2)  # polite pacing if user loops many codes
              return eu
          return None
      if name:
          eu = _query_api_and_normalize(e_code=None, name=name, timeout=timeout)
          if eu:
              ...
              e_store = eu.get("eu_e_code") or ""
              if e_store:
                  db_upsert(eu)
                  L1_CACHE[e_store] = eu
              time.sleep(0.2)
              return eu
          return None
      return None
  \<close>
\<close>

definition live_by_code :: "env \<Rightarrow> state \<Rightarrow> string \<Rightarrow> bool \<Rightarrow> (exn + pydict option) \<times> state" where
  \<comment> \<open>lines 490 to 512: the E-code path after both tiers missed\<close>
  "live_by_code env st e_store translate_sv =
     (case query_api_and_normalize env st (Some e_store) None of
        (Inl e, st1) \<Rightarrow> (Inl e, st1)
      | (Inr None, st1) \<Rightarrow> (Inr None, st1)
      | (Inr (Some eu0), st1) \<Rightarrow>
          if eu0 = [] then (Inr None, st1)
          else (case complete_record env st1 eu0 translate_sv of
                  (Inl e, st2) \<Rightarrow> (Inl e, st2)
                | (Inr eu, st2) \<Rightarrow>
                    (Inr (Some eu), l1_put (db_upsert env st2 eu) (PStr e_store) eu)))"

definition live_by_name :: "env \<Rightarrow> state \<Rightarrow> string \<Rightarrow> bool \<Rightarrow> (exn + pydict option) \<times> state" where
  \<comment> \<open>lines 515 to 536: the name path\<close>
  "live_by_name env st name translate_sv =
     (case query_api_and_normalize env st None (Some name) of
        (Inl e, st1) \<Rightarrow> (Inl e, st1)
      | (Inr None, st1) \<Rightarrow> (Inr None, st1)
      | (Inr (Some eu0), st1) \<Rightarrow>
          if eu0 = [] then (Inr None, st1)
          else (case complete_record env st1 eu0 translate_sv of
                  (Inl e, st2) \<Rightarrow> (Inl e, st2)
                | (Inr eu, st2) \<Rightarrow>
                    (let e_store = py_or (dict_get eu ''eu_e_code'') (PStr [])
                     in if truthy e_store
                        then (Inr (Some eu), l1_put (db_upsert env st2 eu) e_store eu)
                        else (Inr (Some eu), st2))))"

definition query_eu_additive :: "env \<Rightarrow> state \<Rightarrow> string option \<Rightarrow> string option \<Rightarrow> bool
    \<Rightarrow> (exn + pydict option) \<times> state" where
  "query_eu_additive env st e_code name translate_sv =
     (case given e_code of
        Some c \<Rightarrow>
          (let e_store = normalize_e_code_storage c;
               hit = l1_cache st (PStr e_store);
               (hit_fresh, st1) = fresh env st hit
           in if hit_fresh then (Inr hit, st1)
              else (let row = db_get_by_e_code st1 e_store;
                        (row_fresh, st2) = fresh env st1 row
                    in if row_fresh
                       then (case row of
                               Some d \<Rightarrow> (Inr row, l1_put st2 (PStr e_store) d)
                             | None \<Rightarrow> (Inr row, st2))
                       else live_by_code env st2 e_store translate_sv))
      | None \<Rightarrow>
          (case given name of
             Some n \<Rightarrow> live_by_name env st n translate_sv
           | None \<Rightarrow> (Inr None, st)))"

text \<open>
  \<^verbatim>\<open>
  def enrich_items_with_eu(items, translate_sv=True):
      out = []
      for it in items:
          if it.get("source") == "PDF":
              out.append(it)
              continue
          name = (it.get("ingredient") or "").strip()
          e_code = (it.get("e_code") or "").strip()
          if not e_code:
              e_code = extract_e_code_from_text(name)
          eu = query_eu_additive(e_code=e_code or None, name=None if e_code else name,
                                 translate_sv=translate_sv)
          if eu:
              it["eu_enriched"] = True
              it["eu_source"] = "EU_API"
              it["eu_e_code"] = eu.get("eu_e_code", "")
              it["eu_official_name"] = eu.get("eu_official_name", "")
              it["eu_function"] = eu.get("eu_function", "")
              it["eu_policy_item_id"] = eu.get("eu_policy_item_id", "")
              it["eu_official_name_en"] = eu.get("eu_official_name_en", "")
              it["eu_function_en"] = eu.get("eu_function_en", "")
              it["eu_official_name_sv"] = eu.get("eu_official_name_sv", "")
              it["eu_function_sv"] = eu.get("eu_function_sv", "")
              if eu.get("eu_fip_url"):
                  it["eu_fip_url"] = eu.get("eu_fip_url")
          else:
              it["eu_enriched"] = False
              it["eu_source"] = "None"
          out.append(it)
      return out
  \<close>
  An item is a value here: the list returned holds the items as they are when the function
  returns.
\<close>

definition copy_field :: "pydict \<Rightarrow> pydict \<Rightarrow> string \<Rightarrow> pydict" where
  \<comment> \<open>\<^verbatim>\<open>it[k] = eu.get(k, "")\<close>\<close>
  "copy_field eu it k = dict_set it k (dict_get_d eu k (PStr []))"

definition attach :: "pydict \<Rightarrow> pydict option \<Rightarrow> pydict" where
  "attach it eu =
     (case eu of
        None \<Rightarrow> dict_set (dict_set it ''eu_enriched'' (PBool False)) ''eu_source'' (PStr ''None'')
      | Some d \<Rightarrow>
          if d = [] then dict_set (dict_set it ''eu_enriched'' (PBool False)) ''eu_source'' (PStr ''None'')
          else (let it1 = dict_set (dict_set it ''eu_enriched'' (PBool True)) ''eu_source'' (PStr ''EU_API'');
                    it2 = foldl (copy_field d) it1
                            [''eu_e_code'', ''eu_official_name'', ''eu_function'', ''eu_policy_item_id'',
                             ''eu_official_name_en'', ''eu_function_en'', ''eu_official_name_sv'',
                             ''eu_function_sv'']
                in if truthy (dict_get d ''eu_fip_url'')
                   then dict_set it2 ''eu_fip_url'' (dict_get d ''eu_fip_url'')
                   else it2))"

definition enrich_item :: "env \<Rightarrow> state \<Rightarrow> pydict \<Rightarrow> bool \<Rightarrow> (exn + pydict) \<times> state" where
  \<comment> \<open>the body of the loop\<close>
  "enrich_item env st it translate_sv =
     (if dict_get it ''source'' = PStr ''PDF'' then (Inr it, st)
      else case or_empty_strip (dict_get it ''ingredient'') of
             Inl e \<Rightarrow> (Inl e, st)
           | Inr name \<Rightarrow>
               (case or_empty_strip (dict_get it ''e_code'') of
                  Inl e \<Rightarrow> (Inl e, st)
                | Inr e_code0 \<Rightarrow>
                    (let e_code = (if e_code0 = [] then extract_e_code_from_text name else e_code0)
                     in case query_eu_additive env st
                               (if e_code = [] then None else Some e_code)
                               (if e_code = [] then Some name else None) translate_sv of
                          (Inl e, st1) \<Rightarrow> (Inl e, st1)
                        | (Inr eu, st1) \<Rightarrow> (Inr (attach it eu), st1))))"

fun enrich_items_with_eu :: "env \<Rightarrow> state \<Rightarrow> pydict list \<Rightarrow> bool \<Rightarrow> (exn + pydict list) \<times> state" where
  "enrich_items_with_eu env st [] translate_sv = (Inr [], st)"
| "enrich_items_with_eu env st (it # items) translate_sv =
     (case enrich_item env st it translate_sv of
        (Inl e, st1) \<Rightarrow> (Inl e, st1)
      | (Inr it', st1) \<Rightarrow>
          (case enrich_items_with_eu env st1 items translate_sv of
             (Inl e, st2) \<Rightarrow> (Inl e, st2)
           | (Inr out, st2) \<Rightarrow> (Inr (it' # out), st2)))"


section \<open>Notions used in the properties\<close>

text \<open>
  A canonical key starts with \<open>E\<close> and holds no whitespace, no hyphen and no lower-case
  letter. Normalization produces such keys and leaves them as they are.
\<close>

definition canonical :: "string \<Rightarrow> bool" where
  "canonical r =
     (startswith r ''E'' \<and> (\<forall>c\<in>set r. \<not> is_space c \<and> c \<noteq> CHR ''-'' \<and> upper_char c = c))"

text \<open>
  The row selector as the specification words it: the first row whose normalized code is
  the wanted code and whose type is \<^verbatim>\<open>substanceFAD\<close> whatever the case of the letters;
  failing that, the first row whose normalized code is the wanted code; failing that, the
  first row of that type; failing that, the first row; and nothing for no rows. The
  normalized code of a row and its type are read as the source reads them.
\<close>

definition row_code :: "pydict \<Rightarrow> string" where
  "row_code r = normalize_e_code_storage (first_code r ecode_keys)"

definition is_substance :: "pydict \<Rightarrow> bool" where
  "is_substance r = (lower (type_text r) = ''substancefad'')"

definition select_best_row :: "pydict list \<Rightarrow> string \<Rightarrow> pydict option" where
  "select_best_row rows wanted =
     (case find (\<lambda>r. row_code r = wanted \<and> is_substance r) rows of
        Some r \<Rightarrow> Some r
      | None \<Rightarrow>
          (case find (\<lambda>r. row_code r = wanted) rows of
             Some r \<Rightarrow> Some r
           | None \<Rightarrow>
               (case find is_substance rows of
                  Some r \<Rightarrow> Some r
                | None \<Rightarrow> (case rows of [] \<Rightarrow> None | r # _ \<Rightarrow> Some r))))"

text \<open>
  Most steps of a lookup read the world and touch neither tier: they change the count of
  interactions only.
\<close>

definition only_ticks :: "state \<Rightarrow> state \<Rightarrow> bool" where
  "only_ticks st st' = (l1_cache st' = l1_cache st \<and> db st' = db st \<and> trace st' = trace st)"

section \<open>A sample world\<close>

text \<open>
  One concrete world and state, on which the theorems below are exercised. The registry
  answers a JSON request for \<^verbatim>\<open>E 211\<close> with one row and a JSON request for the name
  \<^verbatim>\<open>Foo\<close> with a single row that has no code; a request for \<^verbatim>\<open>E 999\<close> fails in transport,
  any other request gets status 404. A response body is given by a short name, and
  \<open>sample_json\<close> is the value \<^verbatim>\<open>resp.json()\<close> decodes from it. The clock stands at 2026-07-01T00:00:00, that is
  1782864000 seconds after the epoch; \<open>sample_fromisoformat\<close> gives \<^verbatim>\<open>datetime.fromisoformat\<close>
  on the few texts used. No generation capability is configured.
\<close>

definition sample_json :: "string \<Rightarrow> exn + pyval" where
  "sample_json body =
     (if body = ''[{E 211}]''
      then Inr (PList [PDict [(''additive_e_code'', PStr ''E 211''),
                              (''additive_name'', PStr ''Sodium benzoate''),
                              (''functional_class'', PStr ''Preservative''),
                              (''fip_url'', PStr ''https://example.org/E211'')]])
      else if body = ''{Foo}''
      then Inr (PDict [(''additive_name'', PStr ''Foo'')])
      else Inl JSONDecodeError)"

definition sample_requests_get ::
    "nat \<Rightarrow> (string \<times> string) list \<Rightarrow> (string \<times> string) list \<Rightarrow> http_outcome" where
  "sample_requests_get n params headers =
     (if map_of params ''format'' = Some ''json'' \<and> map_of params ''additive_e_code'' = Some ''E 211''
      then Http_response 200 ''[{E 211}]''
      else if map_of params ''format'' = Some ''json'' \<and> map_of params ''additive_name'' = Some ''Foo''
      then Http_response 200 ''{Foo}''
      else if map_of params ''additive_e_code'' = Some ''E 999''
      then Http_raises
      else Http_response 404 ''Not found'')"

definition sample_fromisoformat :: "string \<Rightarrow> dt_parse" where
  "sample_fromisoformat s =
     (if s = ''2026-07-01T00:00:00'' then Naive 1782864000000000
      else if s = ''2026-01-03T00:00:00'' then Naive 1767398400000000
      else if s = ''2026-01-01T23:59:59'' then Naive 1767311999000000
      else if s = ''2026-06-30T00:00:00+00:00'' then Aware 1782777600000000
      else Dt_raises)"

definition sample_env :: env where
  "sample_env =
     \<lparr> qry_api_key = [], hdr_api_key = [],
       requests_get = sample_requests_get,
       write_raises = (\<lambda>n. False),
       json_loads = sample_json,
       csv_rows = (\<lambda>text. Inr []),
       clock = (\<lambda>n. 1782864000000000),
       isoformat = (\<lambda>t. ''2026-07-01T00:00:00''),
       fromisoformat = sample_fromisoformat,
       llm_ready = False,
       llm_invoke = (\<lambda>n name_en function_en. Inl GenerationError),
       parse_json_strict = (\<lambda>raw. Inl ValueError) \<rparr>"

definition empty_state :: state where
  "empty_state = \<lparr> l1_cache = Map.empty, db = Map.empty, ticks = 0, trace = [] \<rparr>"

text \<open>
  The row and the records of the sample world: the record fetched for \<^verbatim>\<open>E 211\<close> and its
  completed form, the record built for the name \<^verbatim>\<open>Foo\<close>, a state whose two tiers hold a
  record of \<^verbatim>\<open>E250\<close> written 180 days and one second before the clock's time, two
  classified items, and the state after one live lookup of \<^verbatim>\<open>E211\<close>.
\<close>

definition sample_row_211 :: pydict where
  "sample_row_211 =
     [(''additive_e_code'', PStr ''E 211''),
      (''additive_name'', PStr ''Sodium benzoate''),
      (''functional_class'', PStr ''Preservative''),
      (''fip_url'', PStr ''https://example.org/E211'')]"

definition sample_fetched_211 :: pydict where
  "sample_fetched_211 =
     [(''eu_e_code'', PStr ''E211''),
      (''eu_official_name_en'', PStr ''Sodium benzoate''),
      (''eu_function_en'', PStr ''Preservative''),
      (''eu_policy_item_id'', PStr []),
      (''eu_raw'', PDict sample_row_211),
      (''eu_fip_url'', PStr ''https://example.org/E211''),
      (''updated_at'', PStr ''2026-07-01T00:00:00'')]"

definition sample_record_211 :: pydict where
  "sample_record_211 =
     sample_fetched_211 @
     [(''eu_official_name_sv'', PStr []),
      (''eu_function_sv'', PStr ''Konserveringsmedel''),
      (''eu_official_name'', PStr ''Sodium benzoate''),
      (''eu_function'', PStr ''Preservative'')]"

definition sample_record_foo :: pydict where
  "sample_record_foo =
     [(''eu_e_code'', PStr []),
      (''eu_official_name_en'', PStr ''Foo''),
      (''eu_function_en'', PStr []),
      (''eu_policy_item_id'', PStr []),
      (''eu_raw'', PDict [(''additive_name'', PStr ''Foo'')]),
      (''eu_fip_url'', PStr []),
      (''updated_at'', PStr ''2026-07-01T00:00:00''),
      (''eu_official_name_sv'', PStr []),
      (''eu_function_sv'', PStr []),
      (''eu_official_name'', PStr ''Foo''),
      (''eu_function'', PStr [])]"

definition stale_record :: pydict where
  "stale_record =
     [(''eu_e_code'', PStr ''E250''),
      (''eu_official_name_en'', PStr ''Sodium nitrite''),
      (''updated_at'', PStr ''2026-01-01T23:59:59'')]"

definition stale_row :: db_row where
  "stale_row =
     \<lparr> col_official_name_en = PStr ''Sodium nitrite'', col_function_en = PStr ''Preservative'',
       col_policy_item_id = PStr [], col_payload_json = None, col_name_sv = PStr [],
       col_function_sv = PStr [], col_updated_at = PStr ''2026-01-01T23:59:59'' \<rparr>"

definition stale_state :: state where
  "stale_state =
     \<lparr> l1_cache = [PStr ''E250'' \<mapsto> stale_record], db = [PStr ''E250'' \<mapsto> stale_row],
       ticks = 0, trace = [] \<rparr>"

definition sample_items :: "pydict list" where
  "sample_items =
     [[(''ingredient'', PStr ''water''), (''source'', PStr ''PDF'')],
      [(''ingredient'', PStr ''sodium benzoate (E211)''), (''source'', PStr ''NotInPDF'')]]"

definition sample_enriched :: pydict where
  "sample_enriched =
     [(''ingredient'', PStr ''sodium benzoate (E211)''), (''source'', PStr ''NotInPDF''),
      (''eu_enriched'', PBool True), (''eu_source'', PStr ''EU_API''),
      (''eu_e_code'', PStr ''E211''), (''eu_official_name'', PStr ''Sodium benzoate''),
      (''eu_function'', PStr ''Preservative''), (''eu_policy_item_id'', PStr []),
      (''eu_official_name_en'', PStr ''Sodium benzoate''),
      (''eu_function_en'', PStr ''Preservative''), (''eu_official_name_sv'', PStr []),
      (''eu_function_sv'', PStr ''Konserveringsmedel''),
      (''eu_fip_url'', PStr ''https://example.org/E211'')]"

definition state_211 :: state where
  "state_211 =
     \<lparr> l1_cache = [PStr ''E211'' \<mapsto> sample_record_211],
       db = [PStr ''E211'' \<mapsto> db_row_of sample_record_211 (PStr ''2026-07-01T00:00:00'')],
       ticks = 3, trace = [Db_upsert (PStr ''E211''), L1_put (PStr ''E211'')] \<rparr>"

text \<open>
  The record the durable tier gives back for \<^verbatim>\<open>E211\<close> after that lookup, and the state a
  new process starts from: the same table, the process-local map empty.
\<close>

definition sample_durable_211 :: pydict where
  "sample_durable_211 =
     [(''eu_e_code'', PStr ''E211''),
      (''eu_official_name'', PStr ''Sodium benzoate''),
      (''eu_function'', PStr ''Preservative''),
      (''eu_official_name_en'', PStr ''Sodium benzoate''),
      (''eu_function_en'', PStr ''Preservative''),
      (''eu_official_name_sv'', PStr []),
      (''eu_function_sv'', PStr ''Konserveringsmedel''),
      (''eu_policy_item_id'', PStr []),
      (''eu_raw'', PDict sample_row_211),
      (''updated_at'', PStr ''2026-07-01T00:00:00'')]"

definition restarted_211 :: state where
  "restarted_211 = state_211\<lparr>l1_cache := Map.empty\<rparr>"

section \<open>Properties of the code normalizer\<close>

lemmas char_defs = is_space_def is_digit_def is_alpha_def is_word_def upper_char_def
  lower_char_def ascii_lowercase_def ascii_uppercase_def ascii_digits_def

lemma upper_char_idem: "upper_char (upper_char c) = upper_char c"
  by (auto simp add: upper_char_def ascii_lowercase_def ascii_uppercase_def
      split: option.splits if_splits)

lemma upper_char_E: "upper_char CHR ''E'' = CHR ''E''"
  by (simp add: char_defs)

lemma not_space_E: "\<not> is_space CHR ''E''"
  by (simp add: is_space_def)

lemma dropWhile_none: "\<forall>c\<in>set xs. \<not> P c \<Longrightarrow> dropWhile P xs = xs"
  by (cases xs) auto

lemma strip_no_space: "\<forall>c\<in>set s. \<not> is_space c \<Longrightarrow> strip s = s"
  by (simp add: strip_def dropWhile_none)

lemma set_strip: "c \<in> set (strip s) \<Longrightarrow> c \<in> set s"
  by (auto simp add: strip_def dest!: set_dropWhileD)

lemma canonical_filter:
  "\<forall>c\<in>set (filter (\<lambda>c. \<not> (is_space c \<or> c = CHR ''-'')) (upper t)).
      \<not> is_space c \<and> c \<noteq> CHR ''-'' \<and> upper_char c = c"
  by (auto simp add: upper_def upper_char_idem)

lemma normalize_canonical: "s \<noteq> [] \<Longrightarrow> canonical (normalize_e_code_storage s)"
  using canonical_filter [of "strip s"]
  by (simp add: canonical_def normalize_e_code_storage_def Let_def startswith_def
      upper_char_E not_space_E)

lemma normalize_fixes_canonical: "canonical r \<Longrightarrow> normalize_e_code_storage r = r"
proof -
  assume c: "canonical r"
  then have ns: "\<forall>c\<in>set r. \<not> is_space c" and st: "startswith r ''E''"
    by (simp_all add: canonical_def)
  from c have up: "upper r = r"
    unfolding upper_def by (intro map_idI) (simp add: canonical_def)
  from c have fl: "filter (\<lambda>c. \<not> is_space c \<and> c \<noteq> CHR ''-'') r = r"
    by (simp add: canonical_def)
  from st have ne: "r \<noteq> []" by (auto simp add: startswith_def)
  show ?thesis
    using ne st by (simp add: normalize_e_code_storage_def strip_no_space [OF ns] up fl)
qed

lemma normalize_nonempty: "c \<noteq> [] \<Longrightarrow> normalize_e_code_storage c \<noteq> []"
  by (auto simp add: normalize_e_code_storage_def Let_def startswith_def)

lemma canonical_upper_strip: "canonical r \<Longrightarrow> upper (strip r) = r \<and> r \<noteq> []"
proof -
  assume c: "canonical r"
  then have ns: "\<forall>c\<in>set r. \<not> is_space c" and st: "startswith r ''E''"
    by (simp_all add: canonical_def)
  from c have up: "upper r = r"
    unfolding upper_def by (intro map_idI) (simp add: canonical_def)
  from st have "r \<noteq> []" by (auto simp add: startswith_def)
  with up show ?thesis by (simp add: strip_no_space [OF ns])
qed

lemma variants_nonempty:
  "c \<noteq> [] \<Longrightarrow> v \<in> set (normalize_e_code_query_variants (normalize_e_code_storage c)) \<Longrightarrow> v \<noteq> []"
  using canonical_upper_strip [OF normalize_canonical, of c]
  by (auto simp add: normalize_e_code_query_variants_def spellings_def Let_def
      split: option.splits if_splits)

text \<open>
  Claim C8. Storage normalization is idempotent: normalizing an already normalized code
  gives the same code. It holds for every string, the empty one included.
\<close>

theorem C8_normalize_e_code_storage_idempotent:
  "normalize_e_code_storage (normalize_e_code_storage x) = normalize_e_code_storage x"
proof (cases "x = []")
  case True
  then show ?thesis by (simp add: normalize_e_code_storage_def)
next
  case False
  then show ?thesis by (intro normalize_fixes_canonical normalize_canonical)
qed

theorem C8_witness:
  "normalize_e_code_storage ''e 2-50 '' = ''E250''
   \<and> normalize_e_code_storage (normalize_e_code_storage ''e 2-50 '')
       = normalize_e_code_storage ''e 2-50 ''"
  using C8_normalize_e_code_storage_idempotent [of "''e 2-50 ''"]
  by (simp add: normalize_e_code_storage_def upper_def strip_def startswith_def char_defs)

lemma upper_char_sep: "is_space c \<or> c = CHR ''-'' \<Longrightarrow> upper_char c = c"
  by (auto simp add: is_space_def)
     (simp_all add: upper_char_def ascii_lowercase_def ascii_uppercase_def)

lemma filter_strip_sep:
  assumes "\<forall>c\<in>set s. is_space c \<or> c = CHR ''-''"
  shows "filter (\<lambda>c. \<not> is_space c \<and> c \<noteq> CHR ''-'') (upper (strip s)) = []"
proof -
  have "\<forall>c\<in>set (strip s). is_space c \<or> c = CHR ''-''"
    using assms set_strip [of _ s] by blast
  then have "\<forall>c\<in>set (upper (strip s)). is_space c \<or> c = CHR ''-''"
    using upper_char_sep by (auto simp add: upper_def)
  then show ?thesis by (auto simp add: filter_empty_conv)
qed

text \<open>
  Claim C9. A non-empty input made of whitespace and hyphens only is normalized to the
  one-letter key \<open>E\<close>, and the empty string is the only input whose key is empty.
\<close>

theorem C9_separators_only_give_E:
  "(s \<noteq> [] \<and> (\<forall>c\<in>set s. is_space c \<or> c = CHR ''-'') \<longrightarrow> normalize_e_code_storage s = ''E'')
   \<and> (normalize_e_code_storage s = [] \<longleftrightarrow> s = [])"
  by (auto simp add: normalize_e_code_storage_def filter_strip_sep startswith_def Let_def)

theorem C9_witness:
  "normalize_e_code_storage '' '' = ''E'' \<and> normalize_e_code_storage ''-'' = ''E''
   \<and> normalize_e_code_storage '' - '' = ''E''"
  using C9_separators_only_give_E [of "'' ''"] C9_separators_only_give_E [of "''-''"]
    C9_separators_only_give_E [of "'' - ''"]
  by (simp add: is_space_def)

text \<open>
  Claim C5 says that an input in which the pattern finds no numeric core comes back as
  the raw input in a one-element list. The source does something else when the input holds
  digits, as its comment says (\<^verbatim>\<open>If user passed just numbers like "250", still try variants\<close>):
  for \<^verbatim>\<open>"250"\<close> the pattern finds nothing, there being no \<^verbatim>\<open>E\<close>, and the result is the three
  spellings.
\<close>

lemma upper_strip_250: "upper (strip ''250'') = ''250''"
  by (simp add: strip_def upper_def char_defs)

theorem C5_counterexample:
  "''250'' \<noteq> [] \<and> search_core (upper (strip ''250'')) = None
   \<and> normalize_e_code_query_variants ''250'' = [''E 250'', ''E250'', ''E-250'']
   \<and> normalize_e_code_query_variants ''250'' \<noteq> [''250'']"
  by (simp add: upper_strip_250 normalize_e_code_query_variants_def spellings_def
      match_core_def Let_def char_defs)

text \<open>
  Claim C5 as amended. When the pattern finds no numeric core in the trimmed, upper-cased
  input: if that text holds a digit, the result is the three spellings built from all its
  digits; otherwise it is the one-element list holding the trimmed, upper-cased input.
\<close>

theorem C5_variants_without_core:
  "search_core (upper (strip s)) = None \<Longrightarrow>
   normalize_e_code_query_variants s =
     (if filter is_digit (upper (strip s)) \<noteq> []
      then [''E '' @ filter is_digit (upper (strip s)),
            ''E'' @ filter is_digit (upper (strip s)),
            ''E-'' @ filter is_digit (upper (strip s))]
      else [upper (strip s)])"
  by (simp add: normalize_e_code_query_variants_def spellings_def Let_def)

lemma upper_strip_abc: "upper (strip '' abc'') = ''ABC''"
  by (simp add: strip_def upper_def char_defs)

theorem C5_witness:
  "search_core (upper (strip '' abc'')) = None
   \<and> normalize_e_code_query_variants '' abc'' = [''ABC'']"
proof -
  have h: "search_core (upper (strip '' abc'')) = None"
    by (simp add: upper_strip_abc match_core_def)
  show ?thesis
    using h C5_variants_without_core [OF h] by (simp add: upper_strip_abc char_defs)
qed

section \<open>Properties of the cache and the registry client\<close>

text \<open>
  Claim C3 says that a record is stale exactly when its timestamp is absent, unparseable
  or more than 180 days old. A timestamp that parses but carries a UTC offset is reported
  stale whatever its age, because subtracting it from the offset-free current time raises
  and the handler returns \<^verbatim>\<open>True\<close>: \<^verbatim>\<open>"2026-06-30T00:00:00+00:00"\<close> is one day old at
  2026-07-01T00:00:00 and is reported stale.
\<close>

theorem C3_counterexample:
  "fst (is_expired sample_env empty_state (PStr ''2026-06-30T00:00:00+00:00'') TTL_DAYS)
   \<and> fromisoformat sample_env ''2026-06-30T00:00:00+00:00'' = Aware 1782777600000000
   \<and> clock sample_env (ticks empty_state) - 1782777600000000 = timedelta_days 1"
  by (simp add: is_expired_def sample_env_def sample_fromisoformat_def empty_state_def
      timedelta_days_def)

text \<open>
  Claim C3 as amended. The staleness predicate, with the default of 180 days, reports a
  record stale exactly when its timestamp is absent (falsy), is not a string, cannot be
  parsed, parses to a time with a UTC offset, or parses to an offset-free time more than
  180 days before the current time. A timestamp 180 days and one second in the past is
  stale; one 179 days in the past is fresh.
\<close>

theorem C3_is_expired:
  "(fst (is_expired env st ts TTL_DAYS) \<longleftrightarrow>
      \<not> truthy ts \<or> (\<forall>s. ts \<noteq> PStr s) \<or>
      (\<exists>s. ts = PStr s \<and> (fromisoformat env s = Dt_raises \<or> (\<exists>t. fromisoformat env s = Aware t)
            \<or> (\<exists>t. fromisoformat env s = Naive t
                    \<and> clock env (ticks st) - t > timedelta_days 180))))
   \<and> (s \<noteq> [] \<and> fromisoformat env s = Naive t
        \<and> clock env (ticks st) - t = timedelta_days 180 + 1000000
        \<longrightarrow> fst (is_expired env st (PStr s) TTL_DAYS))
   \<and> (s \<noteq> [] \<and> fromisoformat env s = Naive t
        \<and> clock env (ticks st) - t = timedelta_days 179
        \<longrightarrow> \<not> fst (is_expired env st (PStr s) TTL_DAYS))"
  by (cases ts) (auto simp add: is_expired_def Let_def TTL_DAYS_def timedelta_days_def split: dt_parse.splits)

theorem C3_witness:
  "fst (is_expired sample_env empty_state (PStr ''2026-01-01T23:59:59'') TTL_DAYS)
   \<and> \<not> fst (is_expired sample_env empty_state (PStr ''2026-01-03T00:00:00'') TTL_DAYS)
   \<and> fst (is_expired sample_env empty_state PNone TTL_DAYS)
   \<and> fst (is_expired sample_env empty_state (PStr ''yesterday'') TTL_DAYS)"
  using C3_is_expired [of sample_env empty_state "PStr ''2026-01-01T23:59:59''" "''2026-01-01T23:59:59''" 1767311999000000]
    C3_is_expired [of sample_env empty_state "PStr ''2026-01-03T00:00:00''" "''2026-01-03T00:00:00''" 1767398400000000]
    C3_is_expired [of sample_env empty_state PNone]
    C3_is_expired [of sample_env empty_state "PStr ''yesterday''"]
  by (simp add: sample_env_def sample_fromisoformat_def empty_state_def timedelta_days_def)

lemma http_get_fmt_state: "snd (http_get_fmt env st fmt params) = tick st"
  by (simp add: http_get_fmt_def split: http_outcome.splits)

text \<open>
  Claim C6. Both fetch operations always return a list of rows and never raise, whatever
  the parameters and the world; the list is empty when the request or the write of the
  debug file raises, when the status is not 200, and when the body cannot be decoded.
\<close>

theorem C6_fetch_never_raises:
  "(\<exists>rows. api_get_rows_json env st params = (Inr rows, tick st))
   \<and> (\<exists>rows. api_get_rows_csv env st params = (Inr rows, tick st))
   \<and> (fst (http_get env st params) = Inl e \<longrightarrow> api_get_rows_json env st params = (Inr [], tick st))
   \<and> (fst (http_get_csv env st params) = Inl e \<longrightarrow> api_get_rows_csv env st params = (Inr [], tick st))
   \<and> (fst (http_get env st params) = Inr (status, body) \<and> status \<noteq> 200
        \<longrightarrow> api_get_rows_json env st params = (Inr [], tick st))
   \<and> (fst (http_get_csv env st params) = Inr (status, body) \<and> status \<noteq> 200
        \<longrightarrow> api_get_rows_csv env st params = (Inr [], tick st))
   \<and> (fst (http_get env st params) = Inr (200, body) \<and> json_loads env body = Inl e
        \<longrightarrow> api_get_rows_json env st params = (Inr [], tick st))
   \<and> (fst (http_get_csv env st params) = Inr (200, body) \<and> csv_rows env body = Inl e
        \<longrightarrow> api_get_rows_csv env st params = (Inr [], tick st))"
  using http_get_fmt_state [of env st "''json''" params] http_get_fmt_state [of env st "''csv''" params]
  by (auto simp add: api_get_rows_json_def api_get_rows_json_try_def api_get_rows_csv_def
      api_get_rows_csv_try_def http_get_def http_get_csv_def split: prod.splits sum.splits)


theorem C6_witness:
  "api_get_rows_json sample_env empty_state [(''additive_e_code'', ''E 999'')]
     = (Inr [], tick empty_state)
   \<and> api_get_rows_csv sample_env empty_state [(''additive_e_code'', ''E 250'')]
     = (Inr [], tick empty_state)"
proof -
  have a: "fst (http_get sample_env empty_state [(''additive_e_code'', ''E 999'')])
             = Inl RequestException"
    by (simp add: http_get_def http_get_fmt_def sample_env_def sample_requests_get_def
        merged_params_def empty_state_def)
  have b: "fst (http_get_csv sample_env empty_state [(''additive_e_code'', ''E 250'')])
             = Inr (404, ''Not found'') \<and> (404::nat) \<noteq> 200"
    by (simp add: http_get_csv_def http_get_fmt_def sample_env_def sample_requests_get_def
        merged_params_def empty_state_def)
  show ?thesis
    using a b
      C6_fetch_never_raises [of sample_env empty_state "[(''additive_e_code'', ''E 999'')]"
        RequestException]
      C6_fetch_never_raises [of sample_env empty_state "[(''additive_e_code'', ''E 250'')]"
        _ 404 "''Not found''"]
    by blast
qed

section \<open>Properties of the row selector\<close>

lemma find_enriched:
  "find (\<lambda>(r, e, t). Q r e t) (map (\<lambda>r. (r, f r, g r)) rows)
     = map_option (\<lambda>r. (r, f r, g r)) (find (\<lambda>r. Q r (f r) (g r)) rows)"
  by (induction rows) auto

lemma is_substance_eq: "is_substance = (\<lambda>r. lower (type_text r) = ''substancefad'')"
  by (rule ext) (simp add: is_substance_def)

lemma prefer_substance_match_find:
  "prefer_substance_match rows w =
     (case find (\<lambda>r. row_code r \<noteq> [] \<and> row_code r = w \<and> is_substance r) rows of
        Some r \<Rightarrow> Some r
      | None \<Rightarrow>
          (case find (\<lambda>r. row_code r \<noteq> [] \<and> row_code r = w) rows of
             Some r \<Rightarrow> Some r
           | None \<Rightarrow>
               (case find is_substance rows of
                  Some r \<Rightarrow> Some r
                | None \<Rightarrow> (case rows of [] \<Rightarrow> None | r # _ \<Rightarrow> Some r))))"
  unfolding prefer_substance_match_def enriched_rows_def Let_def find_enriched
  by (simp add: row_code_def is_substance_eq split: option.splits)

lemma find_nonempty_code:
  "w \<noteq> [] \<Longrightarrow> find (\<lambda>r. row_code r \<noteq> [] \<and> row_code r = w \<and> P r) rows
                 = find (\<lambda>r. row_code r = w \<and> P r) rows"
  by (rule find_cong) auto

text \<open>
  Claim C4. The selector is called at one place, with the normalized form of a spelling
  produced for the code asked for, and that wanted code is never empty. For every sequence
  of rows and every such wanted code the selector returns the row that the priority order
  of the specification designates; for the two rows of the claim it returns the second.
  (Both code comparisons of the source require the row's normalized code to be non-empty, so
  a row without a code never matches by code.)
\<close>

theorem C4_row_selector_priority:
  "(wanted \<noteq> [] \<longrightarrow> prefer_substance_match rows wanted = select_best_row rows wanted)
   \<and> (c \<noteq> [] \<and> v \<in> set (normalize_e_code_query_variants (normalize_e_code_storage c))
        \<longrightarrow> normalize_e_code_storage v \<noteq> []
            \<and> prefer_substance_match rows (normalize_e_code_storage v)
                = select_best_row rows (normalize_e_code_storage v))
   \<and> prefer_substance_match
         [[(''code'', PStr ''E250''), (''type'', PStr ''other'')],
          [(''code'', PStr ''E250''), (''type'', PStr ''substanceFAD'')]] ''E250''
       = Some [(''code'', PStr ''E250''), (''type'', PStr ''substanceFAD'')]"
proof -
  have a: "prefer_substance_match rs w = select_best_row rs w" if "w \<noteq> []" for rs w
    using that find_nonempty_code [of w is_substance rs] find_nonempty_code [of w "\<lambda>r. True" rs]
    by (simp add: prefer_substance_match_find select_best_row_def cong: option.case_cong)
  have b: "normalize_e_code_storage v \<noteq> []"
    if "c \<noteq> []" "v \<in> set (normalize_e_code_query_variants (normalize_e_code_storage c))"
    using that variants_nonempty normalize_nonempty by blast
  have e: "select_best_row
         [[(''code'', PStr ''E250''), (''type'', PStr ''other'')],
          [(''code'', PStr ''E250''), (''type'', PStr ''substanceFAD'')]] ''E250''
       = Some [(''code'', PStr ''E250''), (''type'', PStr ''substanceFAD'')]"
    by code_simp
  from a [of "''E250''"] e have
    "prefer_substance_match
         [[(''code'', PStr ''E250''), (''type'', PStr ''other'')],
          [(''code'', PStr ''E250''), (''type'', PStr ''substanceFAD'')]] ''E250''
       = Some [(''code'', PStr ''E250''), (''type'', PStr ''substanceFAD'')]"
    by simp
  with a b show ?thesis by blast
qed

lemma member_variants_E250:
  "''E 250'' \<in> set (normalize_e_code_query_variants (normalize_e_code_storage ''E250''))"
  by code_simp

theorem C4_witness:
  "prefer_substance_match
     [[(''additive_e_code'', PStr ''E 251''), (''additive_type'', PStr ''substanceFAD'')],
      [(''additive_e_code'', PStr ''E 250''), (''additive_type'', PStr ''group'')],
      [(''additive_e_code'', PStr ''E 250''), (''additive_type'', PStr ''SubstanceFad'')]]
     (normalize_e_code_storage ''E 250'')
   = Some [(''additive_e_code'', PStr ''E 250''), (''additive_type'', PStr ''SubstanceFad'')]
   \<and> normalize_e_code_storage ''E 250'' = ''E250''"
proof -
  have s: "select_best_row
     [[(''additive_e_code'', PStr ''E 251''), (''additive_type'', PStr ''substanceFAD'')],
      [(''additive_e_code'', PStr ''E 250''), (''additive_type'', PStr ''group'')],
      [(''additive_e_code'', PStr ''E 250''), (''additive_type'', PStr ''SubstanceFad'')]]
     (normalize_e_code_storage ''E 250'')
   = Some [(''additive_e_code'', PStr ''E 250''), (''additive_type'', PStr ''SubstanceFad'')]"
    by code_simp
  have n: "normalize_e_code_storage ''E 250'' = ''E250''"
    by code_simp
  have h: "''E250'' \<noteq> []" by simp
  from C4_row_selector_priority [where c = "''E250''" and v = "''E 250''" and rows =
     "[[(''additive_e_code'', PStr ''E 251''), (''additive_type'', PStr ''substanceFAD'')],
      [(''additive_e_code'', PStr ''E 250''), (''additive_type'', PStr ''group'')],
      [(''additive_e_code'', PStr ''E 250''), (''additive_type'', PStr ''SubstanceFad'')]]"]
    h member_variants_E250 s n
  show ?thesis by simp
qed

section \<open>Properties of the lookup\<close>

lemma only_ticks_refl: "only_ticks st st"
  by (simp add: only_ticks_def)

lemma only_ticks_trans: "only_ticks a b \<Longrightarrow> only_ticks b c \<Longrightarrow> only_ticks a c"
  by (simp add: only_ticks_def)

lemma only_ticks_tick: "only_ticks st (tick st)"
  by (simp add: only_ticks_def tick_def)

lemma is_expired_only_ticks: "is_expired env st ts days = (b, st') \<Longrightarrow> only_ticks st st'"
  by (cases ts)
     (auto simp add: is_expired_def Let_def only_ticks_refl only_ticks_tick
       split: dt_parse.splits if_splits)

lemma fresh_only_ticks: "fresh env st hit = (b, st') \<Longrightarrow> only_ticks st st'"
  by (auto simp add: fresh_def only_ticks_refl split: option.splits prod.splits if_splits
      dest: is_expired_only_ticks)

lemma api_get_rows_json_result:
  "\<exists>rows. api_get_rows_json env st params = (Inr rows, tick st)"
  using http_get_fmt_state [of env st "''json''" params]
  by (auto simp add: api_get_rows_json_def api_get_rows_json_try_def http_get_def
      split: prod.splits sum.splits)

lemma api_get_rows_csv_result:
  "\<exists>rows. api_get_rows_csv env st params = (Inr rows, tick st)"
  using http_get_fmt_state [of env st "''csv''" params]
  by (auto simp add: api_get_rows_csv_def api_get_rows_csv_try_def http_get_csv_def
      split: prod.splits sum.splits)

lemma rows_json_then_csv_result:
  "\<exists>rows st'. rows_json_then_csv env st params = (Inr rows, st') \<and> only_ticks st st'"
proof -
  obtain r1 where j: "api_get_rows_json env st params = (Inr r1, tick st)"
    using api_get_rows_json_result by blast
  obtain r2 where c: "api_get_rows_csv env (tick st) params = (Inr r2, tick (tick st))"
    using api_get_rows_csv_result by blast
  have "only_ticks st (tick (tick st))"
    by (simp add: only_ticks_def tick_def)
  with j c show ?thesis
    by (auto simp add: rows_json_then_csv_def only_ticks_tick)
qed

lemma choose_by_variants_only_ticks:
  "choose_by_variants env st vs = (r, st') \<Longrightarrow> only_ticks st st'"
proof (induction vs arbitrary: st)
  case Nil
  then show ?case by (simp add: only_ticks_refl)
next
  case (Cons v vs)
  obtain rows st1 where r: "rows_json_then_csv env st [(''additive_e_code'', v)] = (Inr rows, st1)"
    and o: "only_ticks st st1"
    using rows_json_then_csv_result by blast
  have "only_ticks st1 st' \<or> st' = st1"
    using Cons.prems r Cons.IH [of st1]
    by (auto split: option.splits if_splits)
  with o show ?case
    using only_ticks_trans by blast
qed

lemma choose_by_variants_no_rows:
  assumes "\<forall>st' v. v \<in> set vs \<longrightarrow> fst (rows_json_then_csv env st' [(''additive_e_code'', v)]) = Inr []"
  shows "fst (choose_by_variants env st vs) = Inr None"
  using assms
proof (induction vs arbitrary: st)
  case Nil
  show ?case by simp
next
  case (Cons v vs)
  then have "fst (rows_json_then_csv env st [(''additive_e_code'', v)]) = Inr []"
    by simp
  then obtain st1 where "rows_json_then_csv env st [(''additive_e_code'', v)] = (Inr [], st1)"
    by (cases "rows_json_then_csv env st [(''additive_e_code'', v)]") simp
  with Cons show ?case by simp
qed

lemma choose_by_name_only_ticks: "choose_by_name env st n = (r, st') \<Longrightarrow> only_ticks st st'"
  using rows_json_then_csv_result [of env st "[(''additive_name'', n)]"]
  by (auto simp add: choose_by_name_def split: list.splits)

lemma normalize_row_only_ticks: "normalize_row env st r = (eu, st') \<Longrightarrow> only_ticks st st'"
  by (auto simp add: normalize_row_def utcnow_def only_ticks_tick Let_def)

lemma query_api_and_normalize_only_ticks:
  "query_api_and_normalize env st e_code name = (r, st') \<Longrightarrow> only_ticks st st'"
  by (auto simp add: query_api_and_normalize_def Let_def only_ticks_refl
      split: option.splits prod.splits sum.splits
      dest: choose_by_variants_only_ticks choose_by_name_only_ticks normalize_row_only_ticks
      intro: only_ticks_trans)

lemma translate_to_sv_only_ticks: "translate_to_sv env st a b = (r, st') \<Longrightarrow> only_ticks st st'"
  by (auto simp add: translate_to_sv_def only_ticks_refl only_ticks_tick
      split: sum.splits pyval.splits if_splits)

lemma complete_record_only_ticks: "complete_record env st eu tr = (r, st') \<Longrightarrow> only_ticks st st'"
  by (auto simp add: complete_record_def Let_def only_ticks_refl
      split: sum.splits prod.splits if_splits dest: translate_to_sv_only_ticks)

lemma db_get_by_e_code_only_ticks:
  "only_ticks st st' \<Longrightarrow> db_get_by_e_code st' k = db_get_by_e_code st k"
  by (simp add: only_ticks_def db_get_by_e_code_def)

lemma stale_not_fresh:
  "\<forall>d st'. hit = Some d \<longrightarrow> fst (is_expired env st' (dict_get d ''updated_at'') TTL_DAYS)
   \<Longrightarrow> \<not> fst (fresh env st hit)"
  by (auto simp add: fresh_def split: option.splits prod.splits) (metis fst_conv)

lemma query_eu_additive_both_tiers_miss:
  assumes "c \<noteq> []"
    and "\<not> fst (fresh env st (l1_cache st (PStr (normalize_e_code_storage c))))"
    and "\<not> fst (fresh env (snd (fresh env st (l1_cache st (PStr (normalize_e_code_storage c)))))
                (db_get_by_e_code st (normalize_e_code_storage c)))"
  shows "\<exists>st2. only_ticks st st2 \<and>
           query_eu_additive env st (Some c) name tr
             = live_by_code env st2 (normalize_e_code_storage c) tr"
proof -
  let ?k = "normalize_e_code_storage c"
  obtain b1 st1 where f1: "fresh env st (l1_cache st (PStr ?k)) = (b1, st1)"
    by (cases "fresh env st (l1_cache st (PStr ?k))")
  with assms(2) have b1: "\<not> b1" by simp
  from f1 have o1: "only_ticks st st1" by (rule fresh_only_ticks)
  then have d1: "db_get_by_e_code st1 ?k = db_get_by_e_code st ?k"
    by (rule db_get_by_e_code_only_ticks)
  obtain b2 st2 where f2: "fresh env st1 (db_get_by_e_code st ?k) = (b2, st2)"
    by (cases "fresh env st1 (db_get_by_e_code st ?k)")
  with assms(3) f1 have b2: "\<not> b2" by simp
  from f2 have o2: "only_ticks st1 st2" by (rule fresh_only_ticks)
  have "query_eu_additive env st (Some c) name tr = live_by_code env st2 ?k tr"
    using assms(1) f1 b1 f2 b2 d1
    by (simp add: query_eu_additive_def given_def Let_def)
  with o1 o2 show ?thesis
    using only_ticks_trans by blast
qed

lemma live_by_code_no_rows:
  assumes "k \<noteq> []"
    and "\<forall>st' v. v \<in> set (normalize_e_code_query_variants k) \<longrightarrow>
           fst (rows_json_then_csv env st' [(''additive_e_code'', v)]) = Inr []"
  shows "\<exists>st'. live_by_code env st k tr = (Inr None, st') \<and> only_ticks st st'"
proof -
  obtain r st1 where c: "choose_by_variants env st (normalize_e_code_query_variants k) = (r, st1)"
    by (cases "choose_by_variants env st (normalize_e_code_query_variants k)")
  with choose_by_variants_no_rows [OF assms(2), of st] have r: "r = Inr None" by simp
  from c have "only_ticks st st1" by (rule choose_by_variants_only_ticks)
  with c r assms(1) show ?thesis
    by (simp add: live_by_code_def query_api_and_normalize_def given_def)
qed

lemma rows_json_then_csv_empty:
  "fst (api_get_rows_json env st p) = Inr [] \<Longrightarrow> fst (api_get_rows_csv env (tick st) p) = Inr []
   \<Longrightarrow> fst (rows_json_then_csv env st p) = Inr []"
  using api_get_rows_json_result [of env st p]
  by (auto simp add: rows_json_then_csv_def)

text \<open>
  Claim C2. When the record cached for an E-code is stale in each tier that holds one (at
  whatever moment the clock is read) and the live refetch yields no rows for any spelling
  of the code, in either format, the lookup returns nothing; both tiers are left as they
  were, the stale row included.
\<close>

theorem C2_stale_record_and_no_rows:
  assumes "c \<noteq> []"
    and "\<forall>d st'. l1_cache st (PStr (normalize_e_code_storage c)) = Some d \<longrightarrow>
           fst (is_expired env st' (dict_get d ''updated_at'') TTL_DAYS)"
    and "\<forall>d st'. db_get_by_e_code st (normalize_e_code_storage c) = Some d \<longrightarrow>
           fst (is_expired env st' (dict_get d ''updated_at'') TTL_DAYS)"
    and "\<forall>st' v. v \<in> set (normalize_e_code_query_variants (normalize_e_code_storage c)) \<longrightarrow>
           fst (api_get_rows_json env st' [(''additive_e_code'', v)]) = Inr [] \<and>
           fst (api_get_rows_csv env st' [(''additive_e_code'', v)]) = Inr []"
  shows "\<exists>st'. query_eu_additive env st (Some c) name translate_sv = (Inr None, st')
           \<and> l1_cache st' = l1_cache st \<and> db st' = db st"
proof -
  let ?k = "normalize_e_code_storage c"
  have m1: "\<not> fst (fresh env st (l1_cache st (PStr ?k)))"
    using assms(2) by (rule stale_not_fresh)
  have m2: "\<not> fst (fresh env (snd (fresh env st (l1_cache st (PStr ?k)))) (db_get_by_e_code st ?k))"
    using assms(3) by (rule stale_not_fresh)
  obtain st2 where o: "only_ticks st st2"
    and q: "query_eu_additive env st (Some c) name translate_sv = live_by_code env st2 ?k translate_sv"
    using query_eu_additive_both_tiers_miss [OF assms(1) m1 m2] by blast
  have "\<forall>st' v. v \<in> set (normalize_e_code_query_variants ?k) \<longrightarrow>
           fst (rows_json_then_csv env st' [(''additive_e_code'', v)]) = Inr []"
    using assms(4) rows_json_then_csv_empty by blast
  then obtain st' where "live_by_code env st2 ?k translate_sv = (Inr None, st')"
    and "only_ticks st2 st'"
    using live_by_code_no_rows [OF normalize_nonempty [OF assms(1)]] by blast
  with o q show ?thesis
    by (auto simp add: only_ticks_def)
qed

section \<open>Properties of the enrichment orchestrator\<close>

lemma enrich_item_pdf:
  "dict_get it ''source'' = PStr ''PDF'' \<Longrightarrow> enrich_item env st it tr = (Inr it, st)"
  by (simp add: enrich_item_def)

lemma enrich_items_positions:
  "enrich_items_with_eu env st items tr = (Inr out, st') \<Longrightarrow>
   length out = length items \<and>
   (\<forall>i < length items. dict_get (items ! i) ''source'' = PStr ''PDF'' \<longrightarrow> out ! i = items ! i)"
proof (induction items arbitrary: st out)
  case Nil
  then show ?case by simp
next
  case (Cons it items)
  from Cons.prems obtain it' st1 out' where
    h: "enrich_item env st it tr = (Inr it', st1)"
    and t: "enrich_items_with_eu env st1 items tr = (Inr out', st')"
    and o: "out = it' # out'"
    by (auto split: prod.splits sum.splits)
  have "dict_get it ''source'' = PStr ''PDF'' \<longrightarrow> it' = it"
    using h enrich_item_pdf [of it env st tr] by auto
  with Cons.IH [OF t] o show ?case
    by (auto simp add: nth_Cons split: nat.splits)
qed

lemma enrich_items_all_pdf:
  "\<forall>it \<in> set items. dict_get it ''source'' = PStr ''PDF'' \<Longrightarrow>
   enrich_items_with_eu env st items tr = (Inr items, st)"
  by (induction items) (simp_all add: enrich_item_pdf)

text \<open>
  Claim C7. An item whose source is \<^verbatim>\<open>PDF\<close> goes through the loop body unchanged, without
  a lookup and without a change of state. Whenever enrichment of a list returns, the
  result has the length of the input and holds every such item, at its position, equal to
  the input; and a list of such items only is always returned as it is.
\<close>

theorem C7_pdf_items_pass_through:
  "(dict_get it ''source'' = PStr ''PDF'' \<longrightarrow> enrich_item env st it tr = (Inr it, st))
   \<and> (enrich_items_with_eu env st items tr = (Inr out, st') \<longrightarrow>
        length out = length items \<and>
        (\<forall>i < length items. dict_get (items ! i) ''source'' = PStr ''PDF'' \<longrightarrow> out ! i = items ! i))
   \<and> ((\<forall>it \<in> set items. dict_get it ''source'' = PStr ''PDF'') \<longrightarrow>
        enrich_items_with_eu env st items tr = (Inr items, st))"
  using enrich_item_pdf enrich_items_positions enrich_items_all_pdf by blast

section \<open>Properties of the cache writes\<close>

lemma db_upsert_effect:
  "db_upsert env st eu =
     st\<lparr>ticks := Suc (ticks st),
        db := (db st)(dict_get_d eu ''eu_e_code'' (PStr [])
                 \<mapsto> db_row_of eu (PStr (isoformat env (clock env (ticks st))))),
        trace := trace st @ [Db_upsert (dict_get_d eu ''eu_e_code'' (PStr []))]\<rparr>"
  by (simp add: db_upsert_def utcnow_def tick_def Let_def)

lemma cache_writes:
  assumes "only_ticks st st2" and "st' = l1_put (db_upsert env st2 eu) k eu"
  shows "trace st' = trace st @ [Db_upsert (dict_get_d eu ''eu_e_code'' (PStr [])), L1_put k]
         \<and> l1_cache st' = (l1_cache st)(k \<mapsto> eu)
         \<and> (\<exists>now. db st' = (db st)(dict_get_d eu ''eu_e_code'' (PStr []) \<mapsto> db_row_of eu now))"
  using assms by (auto simp add: only_ticks_def l1_put_def db_upsert_effect)

lemma live_by_code_Some:
  "live_by_code env st k tr = (Inr (Some eu), st') \<Longrightarrow>
   \<exists>eu0 st1 st2. query_api_and_normalize env st (Some k) None = (Inr (Some eu0), st1)
      \<and> complete_record env st1 eu0 tr = (Inr eu, st2)
      \<and> st' = l1_put (db_upsert env st2 eu) (PStr k) eu"
  by (auto simp add: live_by_code_def split: prod.splits sum.splits option.splits if_splits)

lemma live_by_name_Some:
  "live_by_name env st n tr = (Inr (Some eu), st') \<Longrightarrow>
   \<exists>eu0 st1 st2. query_api_and_normalize env st None (Some n) = (Inr (Some eu0), st1)
      \<and> complete_record env st1 eu0 tr = (Inr eu, st2)
      \<and> st' = (if truthy (dict_get eu ''eu_e_code'')
                then l1_put (db_upsert env st2 eu) (dict_get eu ''eu_e_code'') eu
                else st2)"
  by (auto simp add: live_by_name_def py_or_def Let_def
      split: prod.splits sum.splits option.splits if_splits)

lemma truthy_dict_get_d: "truthy (dict_get d k) \<Longrightarrow> dict_get_d d k x = dict_get d k"
  by (cases "map_of d k") (simp_all add: dict_get_def dict_get_d_def)

lemma live_only_ticks:
  assumes "query_api_and_normalize env st e n = (r, st1)"
    and "complete_record env st1 eu0 tr = (r', st2)"
  shows "only_ticks st st2"
proof -
  from assms(1) have "only_ticks st st1" by (rule query_api_and_normalize_only_ticks)
  moreover from assms(2) have "only_ticks st1 st2" by (rule complete_record_only_ticks)
  ultimately show ?thesis by (rule only_ticks_trans)
qed

text \<open>
  Claim C1 as amended. A lookup by E-code that misses both tiers and builds a record from
  a live fetch writes, in this order and before it returns, the record's columns into the
  durable tier under the record's own code, and the record itself into L1 under the
  normalized code that was asked for. A lookup by name that builds a record does the same,
  both writes under the record's code, when that code is not empty; when it is empty it
  returns the record and writes to neither tier.
\<close>

theorem C1_live_fetch_cache_writes:
  "(c \<noteq> []
    \<and> \<not> fst (fresh env st (l1_cache st (PStr (normalize_e_code_storage c))))
    \<and> \<not> fst (fresh env (snd (fresh env st (l1_cache st (PStr (normalize_e_code_storage c)))))
                (db_get_by_e_code st (normalize_e_code_storage c)))
    \<and> query_eu_additive env st (Some c) name tr = (Inr (Some eu), st')
    \<longrightarrow> trace st' = trace st @ [Db_upsert (dict_get_d eu ''eu_e_code'' (PStr [])),
                                   L1_put (PStr (normalize_e_code_storage c))]
        \<and> l1_cache st' = (l1_cache st)(PStr (normalize_e_code_storage c) \<mapsto> eu)
        \<and> (\<exists>now. db st' = (db st)(dict_get_d eu ''eu_e_code'' (PStr []) \<mapsto> db_row_of eu now)))
   \<and> (n \<noteq> [] \<and> query_eu_additive env st None (Some n) tr = (Inr (Some eu), st')
    \<longrightarrow> (if truthy (dict_get eu ''eu_e_code'')
         then trace st' = trace st @ [Db_upsert (dict_get eu ''eu_e_code''),
                                      L1_put (dict_get eu ''eu_e_code'')]
              \<and> l1_cache st' = (l1_cache st)(dict_get eu ''eu_e_code'' \<mapsto> eu)
              \<and> (\<exists>now. db st' = (db st)(dict_get eu ''eu_e_code'' \<mapsto> db_row_of eu now))
         else trace st' = trace st \<and> l1_cache st' = l1_cache st \<and> db st' = db st))"
proof (rule conjI; rule impI)
  assume a: "c \<noteq> []
    \<and> \<not> fst (fresh env st (l1_cache st (PStr (normalize_e_code_storage c))))
    \<and> \<not> fst (fresh env (snd (fresh env st (l1_cache st (PStr (normalize_e_code_storage c)))))
                (db_get_by_e_code st (normalize_e_code_storage c)))
    \<and> query_eu_additive env st (Some c) name tr = (Inr (Some eu), st')"
  then obtain sa where o: "only_ticks st sa"
    and l: "live_by_code env sa (normalize_e_code_storage c) tr = (Inr (Some eu), st')"
    using query_eu_additive_both_tiers_miss [of c env st name tr] by auto
  from live_by_code_Some [OF l] obtain eu0 st1 st2 where
    q: "query_api_and_normalize env sa (Some (normalize_e_code_storage c)) None = (Inr (Some eu0), st1)"
    and r: "complete_record env st1 eu0 tr = (Inr eu, st2)"
    and s: "st' = l1_put (db_upsert env st2 eu) (PStr (normalize_e_code_storage c)) eu"
    by blast
  have "only_ticks st st2"
    using o live_only_ticks [OF q r] only_ticks_trans by blast
  from cache_writes [OF this s]
  show "trace st' = trace st @ [Db_upsert (dict_get_d eu ''eu_e_code'' (PStr [])),
                                   L1_put (PStr (normalize_e_code_storage c))]
        \<and> l1_cache st' = (l1_cache st)(PStr (normalize_e_code_storage c) \<mapsto> eu)
        \<and> (\<exists>now. db st' = (db st)(dict_get_d eu ''eu_e_code'' (PStr []) \<mapsto> db_row_of eu now))" .
next
  assume a: "n \<noteq> [] \<and> query_eu_additive env st None (Some n) tr = (Inr (Some eu), st')"
  then have l: "live_by_name env st n tr = (Inr (Some eu), st')"
    by (auto simp add: query_eu_additive_def given_def)
  from live_by_name_Some [OF l] obtain eu0 st1 st2 where
    q: "query_api_and_normalize env st None (Some n) = (Inr (Some eu0), st1)"
    and r: "complete_record env st1 eu0 tr = (Inr eu, st2)"
    and s: "st' = (if truthy (dict_get eu ''eu_e_code'')
                then l1_put (db_upsert env st2 eu) (dict_get eu ''eu_e_code'') eu
                else st2)"
    by blast
  have o: "only_ticks st st2"
    using live_only_ticks [OF q r] .
  show "if truthy (dict_get eu ''eu_e_code'')
         then trace st' = trace st @ [Db_upsert (dict_get eu ''eu_e_code''),
                                      L1_put (dict_get eu ''eu_e_code'')]
              \<and> l1_cache st' = (l1_cache st)(dict_get eu ''eu_e_code'' \<mapsto> eu)
              \<and> (\<exists>now. db st' = (db st)(dict_get eu ''eu_e_code'' \<mapsto> db_row_of eu now))
         else trace st' = trace st \<and> l1_cache st' = l1_cache st \<and> db st' = db st"
  proof (cases "truthy (dict_get eu ''eu_e_code'')")
    case True
    with s have "st' = l1_put (db_upsert env st2 eu) (dict_get eu ''eu_e_code'') eu" by simp
    from cache_writes [OF o this] True show ?thesis
      by (simp add: truthy_dict_get_d)
  next
    case False
    with s o show ?thesis by (simp add: only_ticks_def)
  qed
qed

lemma map_of_dict_set: "map_of (dict_set d k v) k' = (if k' = k then Some v else map_of d k')"
  by (induction d) auto

lemma clean_placeholder_keeps:
  "clean_placeholder eu f = Inr eu' \<Longrightarrow> k \<noteq> f \<Longrightarrow> map_of eu' k = map_of eu k"
  by (auto simp add: clean_placeholder_def map_of_dict_set split: sum.splits if_splits)

lemma override_by_code_keeps:
  "override_by_code eu f tbl = Inr eu' \<Longrightarrow> k \<noteq> f \<Longrightarrow> map_of eu' k = map_of eu k"
  by (auto simp add: override_by_code_def map_of_dict_set split: sum.splits if_splits option.splits)

lemma function_by_map_keeps:
  "function_by_map eu = Inr eu' \<Longrightarrow> k \<noteq> ''eu_function_sv'' \<Longrightarrow> map_of eu' k = map_of eu k"
  by (auto simp add: function_by_map_def Let_def map_of_dict_set
      split: sum.splits if_splits option.splits prod.splits)

lemma sv_fallbacks_keeps:
  assumes "sv_fallbacks eu = Inr eu'" and "k \<noteq> ''eu_official_name_sv''" and "k \<noteq> ''eu_function_sv''"
  shows "map_of eu' k = map_of eu k"
proof -
  from assms(1) obtain e1 e2 e3 e4 where
    s1: "clean_placeholder eu ''eu_official_name_sv'' = Inr e1" and
    s2: "override_by_code e1 ''eu_official_name_sv'' SWEDISH_NAME_OVERRIDES = Inr e2" and
    s3: "clean_placeholder e2 ''eu_function_sv'' = Inr e3" and
    s4: "function_by_map e3 = Inr e4" and
    s5: "override_by_code e4 ''eu_function_sv'' FUNCTION_OVERRIDES_BY_ECODE_SV = Inr eu'"
    unfolding sv_fallbacks_def by (auto split: sum.splits)
  have "map_of e1 k = map_of eu k"
    using s1 assms(2) by (rule clean_placeholder_keeps)
  moreover have "map_of e2 k = map_of e1 k"
    using s2 assms(2) by (rule override_by_code_keeps)
  moreover have "map_of e3 k = map_of e2 k"
    using s3 assms(3) by (rule clean_placeholder_keeps)
  moreover have "map_of e4 k = map_of e3 k"
    using s4 assms(3) by (rule function_by_map_keeps)
  moreover have "map_of eu' k = map_of e4 k"
    using s5 assms(3) by (rule override_by_code_keeps)
  ultimately show ?thesis by simp
qed

lemma complete_record_keeps:
  assumes "complete_record env st eu tr = (Inr eu', st')"
    and "k \<notin> {''eu_official_name_sv'', ''eu_function_sv'', ''eu_official_name'', ''eu_function''}"
  shows "map_of eu' k = map_of eu k"
proof -
  from assms(1) obtain sv e3 where
    f: "sv_fallbacks (dict_set (dict_set eu ''eu_official_name_sv'' (dict_get_d sv ''name_sv'' (PStr [])))
          ''eu_function_sv'' (dict_get_d sv ''function_sv'' (PStr []))) = Inr e3"
    and e: "eu' = dict_set (dict_set e3 ''eu_official_name'' (dict_get_d e3 ''eu_official_name_en'' (PStr [])))
          ''eu_function'' (dict_get_d (dict_set e3 ''eu_official_name'' (dict_get_d e3 ''eu_official_name_en'' (PStr [])))
             ''eu_function_en'' (PStr []))"
    by (auto simp add: complete_record_def Let_def split: sum.splits prod.splits if_splits)
  from assms(2) have "map_of e3 k = map_of eu k"
    using sv_fallbacks_keeps [OF f, of k] by (simp add: map_of_dict_set)
  with e assms(2) show ?thesis
    by (simp add: map_of_dict_set)
qed

lemma normalize_row_fields:
  "normalize_row env st row = (eu, st') \<Longrightarrow>
     map_of eu ''eu_raw'' = Some (PDict row)
     \<and> map_of eu ''eu_fip_url'' = Some (PStr (pick row [''fip_url'', ''url'']))
     \<and> map_of eu ''eu_e_code'' = Some (PStr (normalize_e_code_storage
              (pick row [''additive_e_code'', ''e_code'', ''E_number'', ''e_number'', ''code''])))"
  unfolding normalize_row_def Let_def utcnow_def by auto

lemma query_api_and_normalize_Some:
  "query_api_and_normalize env st e n = (Inr (Some eu0), st1) \<Longrightarrow>
   \<exists>row st0. normalize_row env st0 row = (eu0, st1)"
  unfolding query_api_and_normalize_def Let_def
  by (auto split: prod.splits sum.splits option.splits)

lemma query_api_and_normalize_fields:
  "query_api_and_normalize env st e n = (Inr (Some eu0), st1) \<Longrightarrow>
   \<exists>row. map_of eu0 ''eu_raw'' = Some (PDict row)
        \<and> map_of eu0 ''eu_fip_url'' = Some (PStr (pick row [''fip_url'', ''url'']))
        \<and> map_of eu0 ''eu_e_code'' = Some (PStr (normalize_e_code_storage
              (pick row [''additive_e_code'', ''e_code'', ''E_number'', ''e_number'', ''code''])))"
  using query_api_and_normalize_Some normalize_row_fields by blast

lemma db_get_by_e_code_no_url: "db_get_by_e_code st k = Some d \<Longrightarrow> ''eu_fip_url'' \<notin> dict_keys d"
  by (auto simp add: db_get_by_e_code_def row_to_dict_def dict_keys_def split: option.splits)

lemma db_get_after_upsert:
  "db st' = (db st)(PStr k \<mapsto> db_row_of eu now) \<Longrightarrow>
   \<exists>d. db_get_by_e_code st' k = Some d \<and> dict_get d ''eu_raw'' = dict_get_d eu ''eu_raw'' (PDict [])"
  by (simp add: db_get_by_e_code_def row_to_dict_def db_row_of_def dict_get_def)

lemma query_eu_additive_l1_hit:
  assumes "c \<noteq> []" and "l1_cache st (PStr (normalize_e_code_storage c)) = Some eu"
    and "fst (fresh env st (Some eu))"
  shows "fst (query_eu_additive env st (Some c) name tr) = Inr (Some eu)"
  using assms
  by (cases "fresh env st (Some eu)") (simp add: query_eu_additive_def given_def Let_def)

lemma query_eu_additive_db_hit:
  assumes "c \<noteq> []"
    and "\<not> fst (fresh env st (l1_cache st (PStr (normalize_e_code_storage c))))"
    and "db_get_by_e_code st (normalize_e_code_storage c) = Some d"
    and "fst (fresh env (snd (fresh env st (l1_cache st (PStr (normalize_e_code_storage c))))) (Some d))"
  shows "fst (query_eu_additive env st (Some c) name tr) = Inr (Some d)
         \<and> l1_cache (snd (query_eu_additive env st (Some c) name tr))
              (PStr (normalize_e_code_storage c)) = Some d"
proof -
  let ?k = "normalize_e_code_storage c"
  obtain b1 st1 where f1: "fresh env st (l1_cache st (PStr ?k)) = (b1, st1)"
    by (cases "fresh env st (l1_cache st (PStr ?k))")
  with assms(2) have b1: "\<not> b1" by simp
  from f1 have "only_ticks st st1" by (rule fresh_only_ticks)
  then have d1: "db_get_by_e_code st1 ?k = Some d"
    using assms(3) by (simp add: db_get_by_e_code_only_ticks)
  obtain b2 st2 where f2: "fresh env st1 (Some d) = (b2, st2)"
    by (cases "fresh env st1 (Some d)")
  with assms(4) f1 have b2: "b2" by simp
  show ?thesis
    using assms(1) f1 b1 d1 f2 b2
    by (simp add: query_eu_additive_def given_def Let_def l1_put_def)
qed



lemma is_placeholder_sv_str: "\<exists>b. is_placeholder_sv (PStr s) = Inr b"
  by (simp add: is_placeholder_sv_def or_empty_strip_def Let_def)

lemma function_by_map_total:
  "dict_get_d eu ''eu_function_en'' (PStr []) = PStr f \<Longrightarrow> \<exists>eu'. function_by_map eu = Inr eu'"
  by (cases "find (\<lambda>(k, v). contains (lower f) (lower k)) FUNCTION_SV_MAP")
     (auto simp add: function_by_map_def Let_def py_or_def lower_of_def)

lemma override_by_code_total:
  "dict_get_d eu ''eu_e_code'' (PStr []) = PStr k \<Longrightarrow> \<exists>eu'. override_by_code eu field tbl = Inr eu'"
  by (cases "map_of tbl k") (auto simp add: override_by_code_def table_lookup_def)

lemma clean_placeholder_total:
  "dict_get_d eu field (PStr []) = PStr s \<Longrightarrow> \<exists>eu'. clean_placeholder eu field = Inr eu'"
  using is_placeholder_sv_str [of s] by (auto simp add: clean_placeholder_def)

lemma dict_get_d_keeps: "map_of eu' k = map_of eu k \<Longrightarrow> dict_get_d eu' k x = dict_get_d eu k x"
  by (simp add: dict_get_d_def)

lemma sv_fallbacks_total:
  assumes "dict_get_d eu ''eu_e_code'' (PStr []) = PStr k"
    and "dict_get_d eu ''eu_function_en'' (PStr []) = PStr f"
    and "dict_get_d eu ''eu_official_name_sv'' (PStr []) = PStr []"
    and "dict_get_d eu ''eu_function_sv'' (PStr []) = PStr []"
  shows "\<exists>eu'. sv_fallbacks eu = Inr eu'"
proof -
  obtain e1 where s1: "clean_placeholder eu ''eu_official_name_sv'' = Inr e1"
    using clean_placeholder_total [OF assms(3)] by blast
  have k1: "dict_get_d e1 ''eu_e_code'' (PStr []) = PStr k"
    using assms(1) dict_get_d_keeps [OF clean_placeholder_keeps [OF s1, of "''eu_e_code''"]]
    by simp
  obtain e2 where s2: "override_by_code e1 ''eu_official_name_sv'' SWEDISH_NAME_OVERRIDES = Inr e2"
    using override_by_code_total [OF k1] by blast
  have v2: "dict_get_d e2 ''eu_function_sv'' (PStr []) = PStr []"
    using assms(4) dict_get_d_keeps [OF clean_placeholder_keeps [OF s1, of "''eu_function_sv''"]]
      dict_get_d_keeps [OF override_by_code_keeps [OF s2, of "''eu_function_sv''"]]
    by simp
  obtain e3 where s3: "clean_placeholder e2 ''eu_function_sv'' = Inr e3"
    using clean_placeholder_total [OF v2] by blast
  have f3: "dict_get_d e3 ''eu_function_en'' (PStr []) = PStr f"
    using assms(2) dict_get_d_keeps [OF clean_placeholder_keeps [OF s1, of "''eu_function_en''"]]
      dict_get_d_keeps [OF override_by_code_keeps [OF s2, of "''eu_function_en''"]]
      dict_get_d_keeps [OF clean_placeholder_keeps [OF s3, of "''eu_function_en''"]]
    by simp
  obtain e4 where s4: "function_by_map e3 = Inr e4"
    using function_by_map_total [OF f3] by blast
  have k4: "dict_get_d e4 ''eu_e_code'' (PStr []) = PStr k"
    using k1 dict_get_d_keeps [OF override_by_code_keeps [OF s2, of "''eu_e_code''"]]
      dict_get_d_keeps [OF clean_placeholder_keeps [OF s3, of "''eu_e_code''"]]
      dict_get_d_keeps [OF function_by_map_keeps [OF s4, of "''eu_e_code''"]]
    by simp
  obtain e5 where s5: "override_by_code e4 ''eu_function_sv'' FUNCTION_OVERRIDES_BY_ECODE_SV = Inr e5"
    using override_by_code_total [OF k4] by blast
  show ?thesis
    by (simp add: sv_fallbacks_def s1 s2 s3 s4 s5)
qed

lemma sv_fallbacks_fetched:
  "\<exists>eu. sv_fallbacks
      [(''eu_e_code'', PStr k), (''eu_official_name_en'', PStr a), (''eu_function_en'', PStr f),
       (''eu_policy_item_id'', PStr p), (''eu_raw'', PDict row), (''eu_fip_url'', PStr u),
       (''updated_at'', t), (''eu_official_name_sv'', PStr []), (''eu_function_sv'', PStr [])]
     = Inr eu"
  by (rule sv_fallbacks_total [of _ k f]) (simp_all add: dict_get_d_def)

lemma complete_record_untranslated:
  "normalize_row env st row = (eu0, st1) \<Longrightarrow> \<exists>eu. complete_record env st2 eu0 False = (Inr eu, st2)"
proof -
  assume "normalize_row env st row = (eu0, st1)"
  then obtain k a f p u t where
    e: "eu0 = [(''eu_e_code'', PStr k), (''eu_official_name_en'', PStr a), (''eu_function_en'', PStr f),
       (''eu_policy_item_id'', PStr p), (''eu_raw'', PDict row), (''eu_fip_url'', PStr u),
       (''updated_at'', t)]"
    by (auto simp add: normalize_row_def Let_def utcnow_def)
  obtain eu3 where "sv_fallbacks
      [(''eu_e_code'', PStr k), (''eu_official_name_en'', PStr a), (''eu_function_en'', PStr f),
       (''eu_policy_item_id'', PStr p), (''eu_raw'', PDict row), (''eu_fip_url'', PStr u),
       (''updated_at'', t), (''eu_official_name_sv'', PStr []), (''eu_function_sv'', PStr [])]
     = Inr eu3"
    using sv_fallbacks_fetched by blast
  then show ?thesis
    by (simp add: complete_record_def e no_translation_def dict_get_d_def Let_def)
qed


lemma query_eu_additive_live_state:
  assumes "c \<noteq> []"
    and "\<not> fst (fresh env st (l1_cache st (PStr (normalize_e_code_storage c))))"
    and "\<not> fst (fresh env (snd (fresh env st (l1_cache st (PStr (normalize_e_code_storage c)))))
                (db_get_by_e_code st (normalize_e_code_storage c)))"
  shows "query_eu_additive env st (Some c) name tr
           = live_by_code env
               (snd (fresh env (snd (fresh env st (l1_cache st (PStr (normalize_e_code_storage c)))))
                      (db_get_by_e_code st (normalize_e_code_storage c))))
               (normalize_e_code_storage c) tr"
proof -
  let ?k = "normalize_e_code_storage c"
  obtain b1 st1 where f1: "fresh env st (l1_cache st (PStr ?k)) = (b1, st1)"
    by (cases "fresh env st (l1_cache st (PStr ?k))")
  with assms(2) have b1: "\<not> b1" by simp
  from f1 have o1: "only_ticks st st1" by (rule fresh_only_ticks)
  then have d1: "db_get_by_e_code st1 ?k = db_get_by_e_code st ?k"
    by (rule db_get_by_e_code_only_ticks)
  obtain b2 st2 where f2: "fresh env st1 (db_get_by_e_code st ?k) = (b2, st2)"
    by (cases "fresh env st1 (db_get_by_e_code st ?k)")
  with assms(3) f1 have b2: "\<not> b2" by simp
  show ?thesis
    using assms(1) f1 b1 f2 b2 d1
    by (simp add: query_eu_additive_def given_def Let_def)
qed

lemma live_by_code_returns:
  assumes "query_api_and_normalize env st (Some k) None = (Inr (Some eu0), st1)"
  shows "\<exists>eu. live_by_code env st k False
              = (Inr (Some eu), l1_put (db_upsert env st1 eu) (PStr k) eu)
            \<and> complete_record env st1 eu0 False = (Inr eu, st1)"
proof -
  from query_api_and_normalize_Some [OF assms] obtain row st0 where
    n: "normalize_row env st0 row = (eu0, st1)" by blast
  then have ne: "eu0 \<noteq> []"
    by (auto simp add: normalize_row_def Let_def utcnow_def)
  from complete_record_untranslated [OF n, of st1] obtain eu where
    "complete_record env st1 eu0 False = (Inr eu, st1)" by blast
  with assms ne show ?thesis
    by (simp add: live_by_code_def)
qed

text \<open>
  Claim C10. No record read from the durable tier has the key \<^verbatim>\<open>eu_fip_url\<close>. When a
  lookup by E-code misses both tiers and the registry yields a row, the lookup (without
  translation) returns a record and stores it in L1 under the code asked for; that record
  has the key, with the URL picked from the upstream row, and when the record's code is the
  code asked for, the durable tier read under that same code gives a record built from the
  same row without the key. The same holds for any lookup of that kind that returns, with
  or without translation. A later lookup of the code returns the L1 record as it is while
  L1 holds it fresh, and the durable record, without the key, when L1 does not hold it.
\<close>

theorem C10_fip_url_only_in_L1:
  "(db_get_by_e_code st0 k0 = Some d0 \<longrightarrow> ''eu_fip_url'' \<notin> dict_keys d0)
   \<and> (c \<noteq> []
    \<and> \<not> fst (fresh env st (l1_cache st (PStr (normalize_e_code_storage c))))
    \<and> \<not> fst (fresh env (snd (fresh env st (l1_cache st (PStr (normalize_e_code_storage c)))))
                (db_get_by_e_code st (normalize_e_code_storage c)))
    \<and> query_api_and_normalize env
          (snd (fresh env (snd (fresh env st (l1_cache st (PStr (normalize_e_code_storage c)))))
                 (db_get_by_e_code st (normalize_e_code_storage c))))
          (Some (normalize_e_code_storage c)) None = (Inr (Some eu0), st1)
    \<longrightarrow> (\<exists>eu st' row.
            query_eu_additive env st (Some c) name False = (Inr (Some eu), st')
          \<and> l1_cache st' (PStr (normalize_e_code_storage c)) = Some eu
          \<and> dict_get eu ''eu_raw'' = PDict row
          \<and> map_of eu ''eu_fip_url'' = Some (PStr (pick row [''fip_url'', ''url'']))
          \<and> (dict_get eu ''eu_e_code'' = PStr (normalize_e_code_storage c) \<longrightarrow>
               (\<exists>d. db_get_by_e_code st' (normalize_e_code_storage c) = Some d
                    \<and> ''eu_fip_url'' \<notin> dict_keys d
                    \<and> dict_get d ''eu_raw'' = PDict row))))
   \<and> (c \<noteq> []
    \<and> \<not> fst (fresh env st (l1_cache st (PStr (normalize_e_code_storage c))))
    \<and> \<not> fst (fresh env (snd (fresh env st (l1_cache st (PStr (normalize_e_code_storage c)))))
                (db_get_by_e_code st (normalize_e_code_storage c)))
    \<and> query_eu_additive env st (Some c) name tr = (Inr (Some eu), st')
    \<longrightarrow> l1_cache st' (PStr (normalize_e_code_storage c)) = Some eu
        \<and> (\<exists>row. dict_get eu ''eu_raw'' = PDict row
              \<and> map_of eu ''eu_fip_url'' = Some (PStr (pick row [''fip_url'', ''url'']))
              \<and> (dict_get eu ''eu_e_code'' = PStr (normalize_e_code_storage c) \<longrightarrow>
                   (\<exists>d. db_get_by_e_code st' (normalize_e_code_storage c) = Some d
                        \<and> ''eu_fip_url'' \<notin> dict_keys d
                        \<and> dict_get d ''eu_raw'' = PDict row))))
   \<and> (c \<noteq> [] \<and> l1_cache st (PStr (normalize_e_code_storage c)) = Some eu
        \<and> fst (fresh env st (Some eu))
        \<longrightarrow> fst (query_eu_additive env st (Some c) name tr) = Inr (Some eu))
   \<and> (c \<noteq> []
        \<and> \<not> fst (fresh env st (l1_cache st (PStr (normalize_e_code_storage c))))
        \<and> db_get_by_e_code st (normalize_e_code_storage c) = Some d
        \<and> fst (fresh env (snd (fresh env st (l1_cache st (PStr (normalize_e_code_storage c))))) (Some d))
        \<longrightarrow> fst (query_eu_additive env st (Some c) name tr) = Inr (Some d)
            \<and> ''eu_fip_url'' \<notin> dict_keys d)"
proof -
  let ?k = "normalize_e_code_storage c"
  let ?s2 = "snd (fresh env (snd (fresh env st (l1_cache st (PStr ?k)))) (db_get_by_e_code st ?k))"
  have effect: "l1_cache sx (PStr ?k) = Some e
        \<and> (\<exists>row. dict_get e ''eu_raw'' = PDict row
              \<and> map_of e ''eu_fip_url'' = Some (PStr (pick row [''fip_url'', ''url'']))
              \<and> (dict_get e ''eu_e_code'' = PStr ?k \<longrightarrow>
                   (\<exists>d. db_get_by_e_code sx ?k = Some d
                        \<and> ''eu_fip_url'' \<notin> dict_keys d
                        \<and> dict_get d ''eu_raw'' = PDict row)))"
    if l: "live_by_code env sa ?k t = (Inr (Some e), sx)" for sa t e sx
  proof -
    from live_by_code_Some [OF l] obtain e0 s1 s2 where
      q: "query_api_and_normalize env sa (Some ?k) None = (Inr (Some e0), s1)"
      and r: "complete_record env s1 e0 t = (Inr e, s2)"
      and s: "sx = l1_put (db_upsert env s2 e) (PStr ?k) e"
      by blast
    from query_api_and_normalize_fields [OF q] obtain row where
      "map_of e0 ''eu_raw'' = Some (PDict row)"
      "map_of e0 ''eu_fip_url'' = Some (PStr (pick row [''fip_url'', ''url'']))"
      by blast
    then have f: "map_of e ''eu_raw'' = Some (PDict row)"
      "map_of e ''eu_fip_url'' = Some (PStr (pick row [''fip_url'', ''url'']))"
      using complete_record_keeps [OF r] by simp_all
    from cache_writes [OF only_ticks_refl s] obtain now where
      l1: "l1_cache sx = (l1_cache s2)(PStr ?k \<mapsto> e)"
      and d: "db sx = (db s2)(dict_get_d e ''eu_e_code'' (PStr []) \<mapsto> db_row_of e now)"
      by blast
    have "\<exists>d. db_get_by_e_code sx ?k = Some d \<and> ''eu_fip_url'' \<notin> dict_keys d
               \<and> dict_get d ''eu_raw'' = PDict row"
      if c: "dict_get e ''eu_e_code'' = PStr ?k"
    proof -
      from c have "dict_get_d e ''eu_e_code'' (PStr []) = PStr ?k"
        by (auto simp add: dict_get_def dict_get_d_def split: option.splits)
      with d have "db sx = (db s2)(PStr ?k \<mapsto> db_row_of e now)" by simp
      from db_get_after_upsert [OF this] obtain dd where
        g: "db_get_by_e_code sx ?k = Some dd" and
        w: "dict_get dd ''eu_raw'' = dict_get_d e ''eu_raw'' (PDict [])"
        by blast
      from g have "''eu_fip_url'' \<notin> dict_keys dd" by (rule db_get_by_e_code_no_url)
      with g w f show ?thesis by (simp add: dict_get_d_def)
    qed
    with l1 f show ?thesis
      by (auto simp add: dict_get_def)
  qed
  have p1: "db_get_by_e_code st0 k0 = Some d0 \<longrightarrow> ''eu_fip_url'' \<notin> dict_keys d0"
    using db_get_by_e_code_no_url by blast
  have p2: "\<exists>eu st' row.
            query_eu_additive env st (Some c) name False = (Inr (Some eu), st')
          \<and> l1_cache st' (PStr ?k) = Some eu
          \<and> dict_get eu ''eu_raw'' = PDict row
          \<and> map_of eu ''eu_fip_url'' = Some (PStr (pick row [''fip_url'', ''url'']))
          \<and> (dict_get eu ''eu_e_code'' = PStr ?k \<longrightarrow>
               (\<exists>d. db_get_by_e_code st' ?k = Some d
                    \<and> ''eu_fip_url'' \<notin> dict_keys d
                    \<and> dict_get d ''eu_raw'' = PDict row))"
    if h: "c \<noteq> []" "\<not> fst (fresh env st (l1_cache st (PStr ?k)))"
      "\<not> fst (fresh env (snd (fresh env st (l1_cache st (PStr ?k)))) (db_get_by_e_code st ?k))"
      "query_api_and_normalize env ?s2 (Some ?k) None = (Inr (Some eu0), st1)"
  proof -
    from live_by_code_returns [OF h(4)] obtain e where
      l: "live_by_code env ?s2 ?k False = (Inr (Some e), l1_put (db_upsert env st1 e) (PStr ?k) e)"
      by blast
    have q: "query_eu_additive env st (Some c) name False
               = (Inr (Some e), l1_put (db_upsert env st1 e) (PStr ?k) e)"
      using query_eu_additive_live_state [OF h(1,2,3), of name False] l by simp
    from effect [OF l] q show ?thesis by blast
  qed
  have p3: "l1_cache st' (PStr ?k) = Some eu
        \<and> (\<exists>row. dict_get eu ''eu_raw'' = PDict row
              \<and> map_of eu ''eu_fip_url'' = Some (PStr (pick row [''fip_url'', ''url'']))
              \<and> (dict_get eu ''eu_e_code'' = PStr ?k \<longrightarrow>
                   (\<exists>d. db_get_by_e_code st' ?k = Some d
                        \<and> ''eu_fip_url'' \<notin> dict_keys d
                        \<and> dict_get d ''eu_raw'' = PDict row)))"
    if h: "c \<noteq> []" "\<not> fst (fresh env st (l1_cache st (PStr ?k)))"
      "\<not> fst (fresh env (snd (fresh env st (l1_cache st (PStr ?k)))) (db_get_by_e_code st ?k))"
      "query_eu_additive env st (Some c) name tr = (Inr (Some eu), st')"
  proof -
    have "live_by_code env ?s2 ?k tr = (Inr (Some eu), st')"
      using query_eu_additive_live_state [OF h(1,2,3), of name tr] h(4) by simp
    from effect [OF this] show ?thesis .
  qed
  have p4: "fst (query_eu_additive env st (Some c) name tr) = Inr (Some eu)"
    if "c \<noteq> []" "l1_cache st (PStr ?k) = Some eu" "fst (fresh env st (Some eu))"
    using that by (rule query_eu_additive_l1_hit)
  have p5: "fst (query_eu_additive env st (Some c) name tr) = Inr (Some d)
            \<and> ''eu_fip_url'' \<notin> dict_keys d"
    if "c \<noteq> []" "\<not> fst (fresh env st (l1_cache st (PStr ?k)))"
      "db_get_by_e_code st ?k = Some d"
      "fst (fresh env (snd (fresh env st (l1_cache st (PStr ?k)))) (Some d))"
    using query_eu_additive_db_hit [OF that, of name tr] db_get_by_e_code_no_url [OF that(3)]
    by simp
  from p1 p2 p3 p4 p5 show ?thesis by blast
qed


section \<open>The lookup in the sample world\<close>

lemmas sample_defs = sample_env_def sample_requests_get_def sample_json_def
  sample_fromisoformat_def empty_state_def

lemmas fetch_defs = rows_json_then_csv_def api_get_rows_json_def api_get_rows_json_try_def
  api_get_rows_csv_def api_get_rows_csv_try_def http_get_def http_get_csv_def http_get_fmt_def
  merged_params_def request_headers_def extract_rows_from_json_def

lemma normalize_e211: "normalize_e_code_storage ''e211'' = ''E211''"
  by (simp add: normalize_e_code_storage_def upper_def strip_def startswith_def char_defs)

lemma normalize_E211: "normalize_e_code_storage ''E211'' = ''E211''"
  by (simp add: normalize_e_code_storage_def upper_def strip_def startswith_def char_defs)

lemma normalize_E_211: "normalize_e_code_storage ''E 211'' = ''E211''"
  by (simp add: normalize_e_code_storage_def upper_def strip_def startswith_def char_defs)

lemma upper_strip_E211: "upper (strip ''E211'') = ''E211''"
  by (simp add: upper_def strip_def char_defs)

lemma variants_E211: "normalize_e_code_query_variants ''E211'' = [''E 211'', ''E211'', ''E-211'']"
  by (simp add: normalize_e_code_query_variants_def upper_strip_E211 match_core_def skip_sep_def
      digits3_letter_def spellings_def char_defs)

lemma sample_rows_211:
  "rows_json_then_csv sample_env st [(''additive_e_code'', ''E 211'')]
     = (Inr [sample_row_211], tick st)"
  by (simp add: fetch_defs sample_defs sample_row_211_def)

lemma prefer_211: "prefer_substance_match [sample_row_211] ''E211'' = Some sample_row_211"
  by (simp add: prefer_substance_match_def enriched_rows_def ecode_keys_def sample_row_211_def
      dict_get_def py_str_def normalize_E_211)

lemma sample_query_211:
  "query_api_and_normalize sample_env st (Some ''E211'') None
     = (Inr (Some sample_fetched_211), tick (tick st))"
proof -
  have n: "normalize_row sample_env (tick st) sample_row_211 = (sample_fetched_211, tick (tick st))"
    by (simp add: normalize_row_def utcnow_def sample_row_211_def sample_fetched_211_def
        py_str_def normalize_E_211 Let_def)
       (simp add: sample_env_def)
  have r: "sample_row_211 \<noteq> []" by (simp add: sample_row_211_def)
  show ?thesis
    by (simp add: query_api_and_normalize_def given_def variants_E211 sample_rows_211
        normalize_E_211 prefer_211 r n)
qed

lemma sample_sv_fallbacks_211:
  "sv_fallbacks (dict_set (dict_set sample_fetched_211 ''eu_official_name_sv'' (PStr []))
             ''eu_function_sv'' (PStr []))
   = Inr (sample_fetched_211 @ [(''eu_official_name_sv'', PStr []),
              (''eu_function_sv'', PStr ''Konserveringsmedel'')])"
  by code_simp

lemma sample_complete_211:
  "complete_record sample_env st sample_fetched_211 False = (Inr sample_record_211, st)"
  by (simp add: complete_record_def no_translation_def dict_get_d_def sample_sv_fallbacks_211)
     (simp add: sample_record_211_def sample_fetched_211_def)

lemma sample_run_211:
  assumes "normalize_e_code_storage c = ''E211''" and "c \<noteq> []"
  shows "query_eu_additive sample_env empty_state (Some c) name False
           = (Inr (Some sample_record_211), state_211)"
proof -
  have f: "fresh sample_env st None = (False, st)" for st
    by (simp add: fresh_def)
  have e: "l1_cache empty_state (PStr ''E211'') = None" "db_get_by_e_code empty_state ''E211'' = None"
    by (simp_all add: empty_state_def db_get_by_e_code_def row_to_dict_def)
  have r: "sample_fetched_211 \<noteq> []" by (simp add: sample_fetched_211_def)
  have k: "dict_get_d sample_record_211 ''eu_e_code'' (PStr []) = PStr ''E211''"
    by (simp add: sample_record_211_def sample_fetched_211_def dict_get_d_def)
  show ?thesis
    using assms
    by (simp add: query_eu_additive_def given_def e f live_by_code_def
        sample_query_211 r sample_complete_211 db_upsert_effect l1_put_def k Let_def)
       (simp add: empty_state_def tick_def sample_env_def numeral_3_eq_3 state_211_def)
qed

text \<open>
  A first lookup of \<^verbatim>\<open>e211\<close> in the empty state fetches the row, writes the durable tier and
  then L1, and returns the completed record.
\<close>

theorem C1_witness:
  "query_eu_additive sample_env empty_state (Some ''e211'') None False
     = (Inr (Some sample_record_211), state_211)
   \<and> trace state_211 = [Db_upsert (PStr ''E211''), L1_put (PStr ''E211'')]
   \<and> l1_cache state_211 = [PStr ''E211'' \<mapsto> sample_record_211]"
proof -
  have run: "query_eu_additive sample_env empty_state (Some ''e211'') None False
     = (Inr (Some sample_record_211), state_211)"
    by (rule sample_run_211) (simp_all add: normalize_e211)
  have m1: "\<not> fst (fresh sample_env empty_state (l1_cache empty_state (PStr (normalize_e_code_storage ''e211''))))"
    by (simp add: fresh_def empty_state_def)
  have m2: "\<not> fst (fresh sample_env (snd (fresh sample_env empty_state
                 (l1_cache empty_state (PStr (normalize_e_code_storage ''e211'')))))
               (db_get_by_e_code empty_state (normalize_e_code_storage ''e211'')))"
    by (simp add: fresh_def empty_state_def db_get_by_e_code_def row_to_dict_def)
  have k: "dict_get_d sample_record_211 ''eu_e_code'' (PStr []) = PStr ''E211''"
    by (simp add: sample_record_211_def sample_fetched_211_def dict_get_d_def)
  from C1_live_fetch_cache_writes [where c = "''e211''" and env = sample_env and st = empty_state
      and name = None and tr = False and eu = sample_record_211 and st' = state_211] run m1 m2
  have "trace state_211 = trace empty_state @ [Db_upsert (dict_get_d sample_record_211 ''eu_e_code'' (PStr [])),
                                   L1_put (PStr (normalize_e_code_storage ''e211''))]
        \<and> l1_cache state_211 = (l1_cache empty_state)(PStr (normalize_e_code_storage ''e211'') \<mapsto> sample_record_211)"
    by blast
  with run show ?thesis
    by (simp add: k normalize_e211 empty_state_def)
qed

lemma sample_foo_rows:
  "rows_json_then_csv sample_env st [(''additive_name'', ''Foo'')]
     = (Inr [[(''additive_name'', PStr ''Foo'')]], tick st)"
  by (simp add: fetch_defs sample_defs)

lemma sample_foo_query:
  "query_api_and_normalize sample_env st None (Some ''Foo'')
     = (Inr (Some [(''eu_e_code'', PStr []), (''eu_official_name_en'', PStr ''Foo''),
        (''eu_function_en'', PStr []), (''eu_policy_item_id'', PStr []),
        (''eu_raw'', PDict [(''additive_name'', PStr ''Foo'')]),
        (''eu_fip_url'', PStr []),
        (''updated_at'', PStr ''2026-07-01T00:00:00'')]), tick (tick st))"
  by (simp add: query_api_and_normalize_def given_def choose_by_name_def sample_foo_rows
      normalize_row_def utcnow_def normalize_e_code_storage_def dict_get_d_def py_str_def
      lower_def char_defs)
     (simp add: sample_env_def)

lemma sample_foo_fallbacks:
  "sv_fallbacks [(''eu_e_code'', PStr []), (''eu_official_name_en'', PStr ''Foo''),
        (''eu_function_en'', PStr []), (''eu_policy_item_id'', PStr []),
        (''eu_raw'', PDict [(''additive_name'', PStr ''Foo'')]),
        (''eu_fip_url'', PStr []),
        (''updated_at'', PStr ''2026-07-01T00:00:00''),
        (''eu_official_name_sv'', PStr []), (''eu_function_sv'', PStr [])]
   = Inr [(''eu_e_code'', PStr []), (''eu_official_name_en'', PStr ''Foo''),
        (''eu_function_en'', PStr []), (''eu_policy_item_id'', PStr []),
        (''eu_raw'', PDict [(''additive_name'', PStr ''Foo'')]),
        (''eu_fip_url'', PStr []),
        (''updated_at'', PStr ''2026-07-01T00:00:00''),
        (''eu_official_name_sv'', PStr []), (''eu_function_sv'', PStr [])]"
  by code_simp

lemma sample_foo_record:
  "complete_record sample_env st [(''eu_e_code'', PStr []), (''eu_official_name_en'', PStr ''Foo''),
        (''eu_function_en'', PStr []), (''eu_policy_item_id'', PStr []),
        (''eu_raw'', PDict [(''additive_name'', PStr ''Foo'')]),
        (''eu_fip_url'', PStr []),
        (''updated_at'', PStr ''2026-07-01T00:00:00'')] False
   = (Inr sample_record_foo, st)"
  by (simp add: complete_record_def no_translation_def dict_get_d_def sample_foo_fallbacks
      sample_record_foo_def)

text \<open>
  Claim C1 says that every lookup that builds a record from a live fetch, by code or by
  name, writes it to both tiers before returning it. The name path writes only
  \<^verbatim>\<open>if e_store:\<close>. In the sample world the row found for the name \<^verbatim>\<open>Foo\<close> has no code: the
  record is returned, and neither tier has been written.
\<close>

theorem C1_counterexample:
  "fst (query_eu_additive sample_env empty_state None (Some ''Foo'') False)
     = Inr (Some sample_record_foo)
   \<and> trace (snd (query_eu_additive sample_env empty_state None (Some ''Foo'') False)) = []
   \<and> l1_cache (snd (query_eu_additive sample_env empty_state None (Some ''Foo'') False)) = Map.empty
   \<and> db (snd (query_eu_additive sample_env empty_state None (Some ''Foo'') False)) = Map.empty"
proof -
  have "query_eu_additive sample_env empty_state None (Some ''Foo'') False
          = (Inr (Some sample_record_foo), tick (tick empty_state))"
    by (simp add: query_eu_additive_def given_def live_by_name_def sample_foo_query
        sample_foo_record Let_def)
       (simp add: sample_record_foo_def dict_get_def py_or_def)
  then show ?thesis
    by (simp add: empty_state_def tick_def)
qed

lemma sample_durable_read:
  "db_get_by_e_code state_211 ''E211'' = Some sample_durable_211
   \<and> db_get_by_e_code restarted_211 ''E211'' = Some sample_durable_211"
  by (simp add: db_get_by_e_code_def row_to_dict_def restarted_211_def state_211_def db_row_of_def
      sample_record_211_def sample_fetched_211_def sample_durable_211_def dict_get_d_def py_or_def)

lemma sample_fresh_211:
  "fst (fresh sample_env st (Some sample_record_211)) \<and> fst (fresh sample_env st (Some sample_durable_211))"
  by (simp add: fresh_def is_expired_def sample_record_211_def sample_fetched_211_def
      sample_durable_211_def dict_get_def sample_env_def sample_fromisoformat_def
      TTL_DAYS_def timedelta_days_def Let_def)

text \<open>
  The first lookup of \<^verbatim>\<open>e211\<close> builds the record from the registry. A second lookup in the
  same process returns the L1 record, which carries the URL; a lookup from a new process
  returns the durable record of the same code, which has no such key.
\<close>

theorem C10_witness:
  "query_eu_additive sample_env empty_state (Some ''e211'') None False
     = (Inr (Some sample_record_211), state_211)
   \<and> fst (query_eu_additive sample_env state_211 (Some ''e211'') None False)
       = Inr (Some sample_record_211)
   \<and> dict_get sample_record_211 ''eu_fip_url'' = PStr ''https://example.org/E211''
   \<and> db_get_by_e_code state_211 ''E211'' = Some sample_durable_211
   \<and> fst (query_eu_additive sample_env restarted_211 (Some ''e211'') None False)
       = Inr (Some sample_durable_211)
   \<and> ''eu_fip_url'' \<notin> dict_keys sample_durable_211"
proof -
  have run: "query_eu_additive sample_env empty_state (Some ''e211'') None False
     = (Inr (Some sample_record_211), state_211)"
    by (rule sample_run_211) (simp_all add: normalize_e211)
  have c: "''e211'' \<noteq> []" by simp
  have l: "l1_cache state_211 (PStr (normalize_e_code_storage ''e211'')) = Some sample_record_211"
    by (simp add: normalize_e211 state_211_def)
  have f: "fst (fresh sample_env state_211 (Some sample_record_211))"
    using sample_fresh_211 by blast
  have m: "\<not> fst (fresh sample_env restarted_211
                 (l1_cache restarted_211 (PStr (normalize_e_code_storage ''e211''))))"
    by (simp add: restarted_211_def fresh_def)
  have d: "db_get_by_e_code restarted_211 (normalize_e_code_storage ''e211'') = Some sample_durable_211"
    using sample_durable_read by (simp add: normalize_e211)
  have g: "fst (fresh sample_env (snd (fresh sample_env restarted_211
                 (l1_cache restarted_211 (PStr (normalize_e_code_storage ''e211'')))))
               (Some sample_durable_211))"
    using sample_fresh_211 by blast
  have hit: "fst (query_eu_additive sample_env state_211 (Some ''e211'') None False)
       = Inr (Some sample_record_211)"
    using C10_fip_url_only_in_L1 [where c = "''e211''" and env = sample_env and st = state_211
        and eu = sample_record_211 and name = None and tr = False] c l f
    by blast
  have cold: "fst (query_eu_additive sample_env restarted_211 (Some ''e211'') None False)
       = Inr (Some sample_durable_211) \<and> ''eu_fip_url'' \<notin> dict_keys sample_durable_211"
    using C10_fip_url_only_in_L1 [where c = "''e211''" and env = sample_env and st = restarted_211
        and d = sample_durable_211 and name = None and tr = False] c m d g
    by blast
  have u: "dict_get sample_record_211 ''eu_fip_url'' = PStr ''https://example.org/E211''"
    by (simp add: sample_record_211_def sample_fetched_211_def dict_get_def)
  from run hit cold u sample_durable_read show ?thesis by simp
qed

lemma normalize_E250: "normalize_e_code_storage ''E250'' = ''E250''"
  by (simp add: normalize_e_code_storage_def upper_def strip_def startswith_def char_defs)

lemma upper_strip_E250: "upper (strip ''E250'') = ''E250''"
  by (simp add: upper_def strip_def char_defs)

lemma variants_E250: "normalize_e_code_query_variants ''E250'' = [''E 250'', ''E250'', ''E-250'']"
  by (simp add: normalize_e_code_query_variants_def upper_strip_E250 match_core_def skip_sep_def
      digits3_letter_def spellings_def char_defs)

text \<open>
  Both tiers hold a record of \<^verbatim>\<open>E250\<close> that is 180 days and one second old, and the
  registry has no rows for any spelling: the lookup returns nothing.
\<close>

theorem C2_witness:
  "l1_cache stale_state (PStr ''E250'') = Some stale_record
   \<and> db_get_by_e_code stale_state ''E250'' \<noteq> None
   \<and> fst (is_expired sample_env stale_state (dict_get stale_record ''updated_at'') TTL_DAYS)
   \<and> fst (query_eu_additive sample_env stale_state (Some ''E250'') None True) = Inr None"
proof -
  have h1: "''E250'' \<noteq> []" by simp
  have x: "fst (is_expired sample_env st' (PStr ''2026-01-01T23:59:59'') TTL_DAYS)" for st'
    by (simp add: is_expired_def sample_env_def sample_fromisoformat_def TTL_DAYS_def
        timedelta_days_def)
  have h2: "\<forall>d st'. l1_cache stale_state (PStr (normalize_e_code_storage ''E250'')) = Some d \<longrightarrow>
           fst (is_expired sample_env st' (dict_get d ''updated_at'') TTL_DAYS)"
    using x by (auto simp add: normalize_E250 stale_state_def stale_record_def dict_get_def)
  have h3: "\<forall>d st'. db_get_by_e_code stale_state (normalize_e_code_storage ''E250'') = Some d \<longrightarrow>
           fst (is_expired sample_env st' (dict_get d ''updated_at'') TTL_DAYS)"
    using x by (auto simp add: normalize_E250 stale_state_def stale_row_def db_get_by_e_code_def
        row_to_dict_def dict_get_def py_or_def)
  have h4: "\<forall>st' v. v \<in> set (normalize_e_code_query_variants (normalize_e_code_storage ''E250'')) \<longrightarrow>
           fst (api_get_rows_json sample_env st' [(''additive_e_code'', v)]) = Inr [] \<and>
           fst (api_get_rows_csv sample_env st' [(''additive_e_code'', v)]) = Inr []"
    by (auto simp add: normalize_E250 variants_E250 fetch_defs sample_defs)
  from C2_stale_record_and_no_rows [OF h1 h2 h3 h4, of None True]
  have "fst (query_eu_additive sample_env stale_state (Some ''E250'') None True) = Inr None"
    by auto
  with x show ?thesis
    by (simp add: stale_state_def stale_record_def dict_get_def db_get_by_e_code_def
        row_to_dict_def)
qed

lemma extract_sample: "extract_e_code_from_text ''sodium benzoate (E211)'' = ''E211''"
  by code_simp

lemma strip_sample: "strip ''sodium benzoate (E211)'' = ''sodium benzoate (E211)''"
  by code_simp

lemma attach_sample:
  "attach [(''ingredient'', PStr ''sodium benzoate (E211)''), (''source'', PStr ''NotInPDF'')]
     (Some sample_record_211) = sample_enriched"
  by code_simp

text \<open>
  Two items, the first from the guide: it comes back as it was, the second enriched.
\<close>

theorem C7_witness:
  "enrich_items_with_eu sample_env empty_state sample_items False
     = (Inr [[(''ingredient'', PStr ''water''), (''source'', PStr ''PDF'')], sample_enriched],
        state_211)
   \<and> dict_get (sample_items ! 0) ''source'' = PStr ''PDF''"
proof -
  have q: "query_eu_additive sample_env empty_state (Some ''E211'') None False
     = (Inr (Some sample_record_211), state_211)"
    by (rule sample_run_211) (simp_all add: normalize_E211)
  have i: "enrich_item sample_env empty_state
             [(''ingredient'', PStr ''sodium benzoate (E211)''), (''source'', PStr ''NotInPDF'')] False
           = (Inr sample_enriched, state_211)"
    by (simp add: enrich_item_def dict_get_def or_empty_strip_def strip_sample extract_sample
        q attach_sample)
  have run: "enrich_items_with_eu sample_env empty_state sample_items False
     = (Inr [[(''ingredient'', PStr ''water''), (''source'', PStr ''PDF'')], sample_enriched],
        state_211)"
    by (simp add: sample_items_def enrich_item_pdf dict_get_def i)
  have s: "dict_get (sample_items ! 0) ''source'' = PStr ''PDF''"
    by (simp add: sample_items_def dict_get_def)
  from C7_pdf_items_pass_through [where env = sample_env and st = empty_state
      and items = sample_items and tr = False and st' = state_211
      and out = "[[(''ingredient'', PStr ''water''), (''source'', PStr ''PDF'')], sample_enriched]"]
    run s
  have "[[(''ingredient'', PStr ''water''), (''source'', PStr ''PDF'')], sample_enriched] ! 0
          = sample_items ! 0"
    by (simp add: sample_items_def)
  with run s show ?thesis by simp
qed

end
